theory Spec2Isabelle
  imports Complex_Main "HOL-Library.Sublist" "HOL-Library.Multiset"
begin

section \<open>Countdown data generation (experiments/continual/data\_gen.py)\<close>

text \<open>
  A shallow embedding of \<^verbatim>\<open>make_prefix\<close> and of
  \<^verbatim>\<open>DataGenerator.generate_group_data\<close> with its nested functions
  \<^verbatim>\<open>generate_samples\<close>, \<^verbatim>\<open>create_dataset\<close> and \<^verbatim>\<open>process_fn\<close>.
  Console output (\<^verbatim>\<open>rprint\<close>, \<^verbatim>\<open>tqdm\<close>), directory creation and the parquet
  export have no influence on the returned values and are left out.
\<close>

subsection \<open>Python values and string rendering\<close>

datatype py_error = IndexError | UnboundLocalError

text \<open>\<^verbatim>\<open>str(n)\<close> for an integer: decimal digits, with a leading minus sign.\<close>

definition digit_char :: "nat \<Rightarrow> char" where
  "digit_char d = ''0123456789'' ! (d mod 10)"

fun str_nat :: "nat \<Rightarrow> string" where
  "str_nat n = (if n < 10 then [digit_char n] else str_nat (n div 10) @ [digit_char (n mod 10)])"

definition str_int :: "int \<Rightarrow> string" where
  "str_int i = (if i < 0 then CHR ''-'' # str_nat (nat (- i)) else str_nat (nat i))"

text \<open>\<^verbatim>\<open>sep.join(parts)\<close>.\<close>

fun join :: "string \<Rightarrow> string list \<Rightarrow> string" where
  "join sep [] = []"
| "join sep [x] = x"
| "join sep (x # y # ys) = x @ sep @ join sep (y # ys)"

text \<open>The rendering of a list of integers inside an f-string: \<^verbatim>\<open>[1, 2, 3]\<close>.\<close>

definition str_int_list :: "int list \<Rightarrow> string" where
  "str_int_list xs = ''['' @ join '', '' (map str_int xs) @ '']''"

text \<open>\<^verbatim>\<open>sub in s\<close> on strings: \<^verbatim>\<open>sub\<close> occurs as a contiguous piece of \<^verbatim>\<open>s\<close>.\<close>

definition str_contains :: "string \<Rightarrow> string \<Rightarrow> bool" where
  "str_contains sub s = sublist sub s"

text \<open>
  Indexing a Python list with an integer: a negative index counts from the end, an index
  out of range raises \<^verbatim>\<open>IndexError\<close>.
\<close>

definition py_index :: "'a list \<Rightarrow> int \<Rightarrow> py_error + 'a" where
  "py_index xs i =
     (if 0 \<le> i \<and> i < int (length xs) then Inr (xs ! nat i)
      else if - int (length xs) \<le> i \<and> i < 0 then Inr (xs ! nat (int (length xs) + i))
      else Inl IndexError)"

subsection \<open>Samples\<close>

text \<open>
  One entry of the \<^verbatim>\<open>samples\<close> list, which is also one row of the dataset handed to
  \<^verbatim>\<open>process_fn\<close>. The solution and the optimal path are values of the puzzle engine;
  their types are parameters. The solution is nullable in the source
  (\<^verbatim>\<open>solution is not None\<close>), so it is an option here.
\<close>

record ('sol, 'path) sample =
  s_target :: int
  s_nums :: "int list"
  s_solution :: "'sol option"
  s_search_path :: string
  s_rating :: real
  s_optimal_path :: 'path
  s_search_type :: string
  s_heuristic :: string

subsection \<open>make\_prefix\<close>

definition nl :: string where
  "nl = [CHR 0x0A]"

definition task_sentence :: "string \<Rightarrow> string \<Rightarrow> string \<Rightarrow> string" where
  "task_sentence numbers target ops =
     ''Using the numbers '' @ numbers @ '', create an equation that equals '' @ target
     @ ''. You can use basic arithmetic operations ('' @ ops
     @ '') and each number can only be used once. Show your work in <think> </think> tags.''
     @ '' And return the final answer in <answer> </answer> tags, for example''
     @ '' <answer> (1 + 2) / 3 </answer>.''"

text \<open>
  The variable \<^verbatim>\<open>prefix\<close> is assigned in the two branches of the
  \<^verbatim>\<open>if\<close>/\<^verbatim>\<open>elif\<close> only; with any other template type the final
  \<^verbatim>\<open>return prefix\<close> reads an unbound local variable.
\<close>

definition make_prefix ::
  "('sol, 'path) sample \<Rightarrow> string list \<Rightarrow> string \<Rightarrow> py_error + string" where
  "make_prefix dp operators template_type =
     (let target = s_target dp;
          numbers = s_nums dp
      in if template_type = ''base'' then
           Inr (''A conversation between User and Assistant. The user asks a question, and''
                @ '' the Assistant solves it. The assistant first thinks about the reasoning''
                @ '' process in the mind and then provides the user with the answer.'' @ nl
                @ ''User: ''
                @ task_sentence (str_int_list numbers) (str_int target) (join '', '' operators)
                @ nl @ ''Assistant: Let me solve this step by step.'' @ nl @ ''<think>'')
         else if template_type = ''qwen-instruct'' then
           Inr (''<|im_start|>system'' @ nl
                @ ''You are a helpful assistant. You first thinks about the reasoning process''
                @ '' in the mind and then provides the user with the answer.<|im_end|>'' @ nl
                @ ''<|im_start|>user'' @ nl @ '' ''
                @ task_sentence (str_int_list numbers) (str_int target) (join '', '' operators)
                @ ''<|im_end|>'' @ nl @ ''<|im_start|>assistant'' @ nl
                @ ''Let me solve this step by step.'' @ nl @ ''<think>'')
         else Inl UnboundLocalError)"

subsection \<open>External collaborators: the random source and the puzzle engine\<close>

text \<open>
  The module \<^verbatim>\<open>examples.data_preprocess.countdown_generate\<close> (class
  \<^verbatim>\<open>CountDown\<close>, the searches \<^verbatim>\<open>dfs\<close> and \<^verbatim>\<open>bfs\<close>, the two heuristics)
  and Python's \<^verbatim>\<open>random\<close> module are not part of the file verified here. They are
  parameters of the embedding, collected in one record. The state of the global random
  source has type \<^typ>\<open>'g\<close>; every call into the engine may read and advance it, and
  is otherwise a function of its arguments. Calls into the engine are taken to return
  without raising.
\<close>

datatype heuristic_fn = Sum_heuristic | Mult_heuristic

datatype search_fn = Dfs | Bfs

text \<open>The attribute \<^verbatim>\<open>__name__\<close> of the imported functions.\<close>

fun heuristic_name :: "heuristic_fn \<Rightarrow> string" where
  "heuristic_name Sum_heuristic = ''sum_heuristic''"
| "heuristic_name Mult_heuristic = ''mult_heuristic''"

fun search_name :: "search_fn \<Rightarrow> string" where
  "search_name Dfs = ''dfs''"
| "search_name Bfs = ''bfs''"

text \<open>The object built by \<^verbatim>\<open>CountDown(max_target=..., start_size=..., operators=...)\<close>.\<close>

record countdown =
  cd_max_target :: int
  cd_start_size :: int
  cd_operators :: "string list"

record ('g, 'sol, 'path) env =
  seed_state :: "int \<Rightarrow> 'g"
  randbelow :: "nat \<Rightarrow> 'g \<Rightarrow> nat \<times> 'g"
  cd_generate :: "countdown \<Rightarrow> int \<Rightarrow> 'g \<Rightarrow> (int list \<times> 'sol option) \<times> 'g"
  cd_convert_to_path ::
    "countdown \<Rightarrow> int \<Rightarrow> int list \<Rightarrow> 'sol option \<Rightarrow> 'g \<Rightarrow> 'path \<times> 'g"
  dfs :: "int \<Rightarrow> int list \<Rightarrow> heuristic_fn \<Rightarrow> int \<Rightarrow> 'g \<Rightarrow> string \<times> 'g"
  bfs :: "int \<Rightarrow> int list \<Rightarrow> int \<Rightarrow> heuristic_fn \<Rightarrow> 'g \<Rightarrow> string \<times> 'g"

text \<open>
  The contract of \<^verbatim>\<open>random._randbelow(n)\<close>: for positive \<^verbatim>\<open>n\<close> the result is
  below \<^verbatim>\<open>n\<close>.
\<close>

definition env_wf :: "('g, 'sol, 'path) env \<Rightarrow> bool" where
  "env_wf E = (\<forall>n g. 0 < n \<longrightarrow> fst (randbelow E n g) < n)"

text \<open>
  The global state the generation pass works on: the state of the random source, and a
  log of the arguments of the calls of \<^verbatim>\<open>random.seed\<close> made by this module, in order.
\<close>

record 'g world =
  rng :: 'g
  seed_log :: "int list"

text \<open>\<^verbatim>\<open>random.seed(a)\<close> replaces the state of the source, whatever it was.\<close>

definition random_seed :: "('g, 'sol, 'path) env \<Rightarrow> int \<Rightarrow> 'g world \<Rightarrow> 'g world" where
  "random_seed E a w = \<lparr>rng = seed_state E a, seed_log = seed_log w @ [a]\<rparr>"

text \<open>A call that reads and advances the random source.\<close>

definition draw :: "('g \<Rightarrow> 'a \<times> 'g) \<Rightarrow> 'g world \<Rightarrow> 'a \<times> 'g world" where
  "draw f w = (case f (rng w) of (x, g) \<Rightarrow> (x, w\<lparr>rng := g\<rparr>))"

text \<open>
  \<^verbatim>\<open>random.randint(a, b)\<close> is \<^verbatim>\<open>a + _randbelow(b - a + 1)\<close> and
  \<^verbatim>\<open>random.choice(seq)\<close> is \<^verbatim>\<open>seq[_randbelow(len(seq))]\<close>; under \<^const>\<open>env_wf\<close>
  the index is in range.
\<close>

definition random_randint ::
  "('g, 'sol, 'path) env \<Rightarrow> int \<Rightarrow> int \<Rightarrow> 'g world \<Rightarrow> int \<times> 'g world" where
  "random_randint E a b w =
     (case draw (randbelow E (nat (b - a + 1))) w of (k, w') \<Rightarrow> (a + int k, w'))"

definition random_choice ::
  "('g, 'sol, 'path) env \<Rightarrow> 'a list \<Rightarrow> 'g world \<Rightarrow> 'a \<times> 'g world" where
  "random_choice E seq w =
     (case draw (randbelow E (length seq)) w of (k, w') \<Rightarrow> (seq ! k, w'))"

subsection \<open>generate\_samples\<close>

text \<open>
  The retry loop \<^verbatim>\<open>while not ok\<close>: draw a target, ask the engine for numbers and a
  solution, stop at the first solution that is not \<^verbatim>\<open>None\<close>. The loop has no bound;
  a run that never leaves it has the value \<^const>\<open>None\<close>.
\<close>

partial_function (option) generate_samples_retry ::
  "('g, 'sol, 'path) env \<Rightarrow> countdown \<Rightarrow> 'g world \<Rightarrow>
     ((int \<times> int list \<times> 'sol option) \<times> 'g world) option" where
  "generate_samples_retry E cd w =
     (case random_randint E 10 1000 w of (target, w1) \<Rightarrow>
        (case draw (cd_generate E cd target) w1 of ((nums, solution), w2) \<Rightarrow>
           if solution \<noteq> None then Some ((target, nums, solution), w2)
           else generate_samples_retry E cd w2))"

declare generate_samples_retry.simps [code]

text \<open>
  The f-string of the \<^verbatim>\<open>search_type\<close> entry. The variable \<^verbatim>\<open>beam_size\<close> is bound
  on the \<^verbatim>\<open>bfs\<close> branch only (\<^const>\<open>None\<close> stands for unbound); it is read only
  when \<^verbatim>\<open>search == bfs\<close>.
\<close>

definition search_type_label :: "search_fn \<Rightarrow> int option \<Rightarrow> py_error + string" where
  "search_type_label search beam_size =
     (if search = Bfs then
        (case beam_size of
           None \<Rightarrow> Inl UnboundLocalError
         | Some b \<Rightarrow> Inr (search_name search @ ''_'' @ str_int b))
      else Inr (search_name search @ ''''))"

text \<open>One iteration of the \<^verbatim>\<open>for\<close> loop: the sample it appends.\<close>

definition generate_samples_body ::
  "('g, 'sol, 'path) env \<Rightarrow> string list \<Rightarrow> 'g world \<Rightarrow>
     (py_error + ('sol, 'path) sample \<times> 'g world) option" where
  "generate_samples_body E operators w =
     (case random_randint E 3 4 w of (start_size, w1) \<Rightarrow>
      let cd = \<lparr>cd_max_target = 1000, cd_start_size = start_size, cd_operators = operators\<rparr>
      in case generate_samples_retry E cd w1 of
           None \<Rightarrow> None
         | Some ((target, nums, solution), w2) \<Rightarrow>
            (case draw (cd_convert_to_path E cd target nums solution) w2 of
               (no_backtrack_trace, w3) \<Rightarrow>
            (case random_choice E [Sum_heuristic, Mult_heuristic] w3 of (heuristic, w4) \<Rightarrow>
            (case random_choice E [Dfs, Bfs] w4 of (search, w5) \<Rightarrow>
            (case (if search = Dfs then
                     (case draw (dfs E target nums heuristic target) w5 of
                        (search_path, w6) \<Rightarrow> (search_path, None, w6))
                   else
                     (case random_choice E [1, 2, 3, 4, 5] w5 of (beam_size, w6) \<Rightarrow>
                        (case draw (bfs E target nums beam_size heuristic) w6 of
                           (search_path, w7) \<Rightarrow> (search_path, Some beam_size, w7))))
             of (search_path, beam_size, w8) \<Rightarrow>
               let max_rating = (if start_size = 3 then 3 * 4 * 4 else 1152 :: int);
                   rating = (if str_contains ''Goal Reached'' search_path then 1 else 0)
               in case search_type_label search beam_size of
                    Inl e \<Rightarrow> Some (Inl e)
                  | Inr search_type \<Rightarrow>
                      Some (Inr (\<lparr>s_target = target, s_nums = nums, s_solution = solution,
                                  s_search_path = search_path, s_rating = rating,
                                  s_optimal_path = no_backtrack_trace,
                                  s_search_type = search_type,
                                  s_heuristic = heuristic_name heuristic\<rparr>, w8)))))))"

text \<open>The loop \<^verbatim>\<open>for _ in range(num_samples)\<close>, appending to \<^verbatim>\<open>samples\<close>.\<close>

fun generate_samples_loop ::
  "('g, 'sol, 'path) env \<Rightarrow> string list \<Rightarrow> nat \<Rightarrow> ('sol, 'path) sample list \<Rightarrow> 'g world \<Rightarrow>
     (py_error + ('sol, 'path) sample list \<times> 'g world) option" where
  "generate_samples_loop E operators 0 samples w = Some (Inr (samples, w))"
| "generate_samples_loop E operators (Suc n) samples w =
     (case generate_samples_body E operators w of
        None \<Rightarrow> None
      | Some (Inl e) \<Rightarrow> Some (Inl e)
      | Some (Inr (s, w')) \<Rightarrow> generate_samples_loop E operators n (samples @ [s]) w')"

text \<open>
  \<^verbatim>\<open>generate_samples(num_samples, seed_offset)\<close>, a closure over \<^verbatim>\<open>operators\<close> and
  \<^verbatim>\<open>group_idx\<close>. \<^verbatim>\<open>range\<close> of a negative number is empty.
\<close>

definition generate_samples ::
  "('g, 'sol, 'path) env \<Rightarrow> string list \<Rightarrow> int \<Rightarrow> int \<Rightarrow> int \<Rightarrow> 'g world \<Rightarrow>
     (py_error + ('sol, 'path) sample list \<times> 'g world) option" where
  "generate_samples E operators group_idx num_samples seed_offset w =
     generate_samples_loop E operators (nat num_samples) []
       (random_seed E (42 + group_idx + seed_offset) w)"

subsection \<open>Training records\<close>

text \<open>
  The dictionary \<^verbatim>\<open>process_fn\<close> returns for one row. (\<^verbatim>\<open>Dataset.map\<close> stores
  its entries as columns beside the row's own.)
\<close>

record message =
  role :: string
  content :: string

record ('sol, 'path) ground_truth =
  gt_target :: int
  gt_numbers :: "int list"
  gt_solution :: "'sol option"
  gt_search_path :: string
  gt_rating :: real
  gt_optimal_path :: 'path

record ('sol, 'path) reward_model =
  style :: string
  ground_truth :: "('sol, 'path) ground_truth"

record extra_info =
  ei_split :: string
  ei_index :: int
  ei_operator_group :: string
  ei_search_type :: string
  ei_heuristic :: string

record ('sol, 'path) training_record =
  data_source :: string
  prompt :: "message list"
  ability :: string
  reward_model :: "('sol, 'path) reward_model"
  extra_info :: extra_info

subsection \<open>The generator object\<close>

definition operator_groups :: "string list list" where
  "operator_groups = [[''+''], [''+'', ''-''], [''+'', ''-'', ''*''], [''+'', ''-'', ''*'', ''/'']]"

definition group_names :: "string list" where
  "group_names = [''plus'', ''plus_minus'', ''plus_minus_mul'', ''plus_minus_mul_div'']"

subsection \<open>create\_dataset and process\_fn\<close>

text \<open>
  \<^verbatim>\<open>process_fn(example, idx)\<close>, a closure over \<^verbatim>\<open>split\<close> and \<^verbatim>\<open>group_idx\<close>.
  It calls \<^verbatim>\<open>make_prefix\<close> with the default template type \<^verbatim>\<open>base\<close>.
\<close>

definition process_fn ::
  "int \<Rightarrow> string \<Rightarrow> ('sol, 'path) sample \<Rightarrow> int \<Rightarrow> py_error + ('sol, 'path) training_record" where
  "process_fn group_idx split_name example idx =
     (case make_prefix example [''+'', ''-'', ''*'', ''/''] ''base'' of
        Inl e \<Rightarrow> Inl e
      | Inr question \<Rightarrow>
         (case py_index group_names group_idx of
            Inl e \<Rightarrow> Inl e
          | Inr group_name \<Rightarrow>
              Inr \<lparr>data_source = ''countdown_continual'',
                   prompt = [\<lparr>role = ''user'', content = question\<rparr>],
                   ability = ''math'',
                   reward_model =
                     \<lparr>style = ''rule'',
                      ground_truth =
                        \<lparr>gt_target = s_target example,
                         gt_numbers = s_nums example,
                         gt_solution = s_solution example,
                         gt_search_path = s_search_path example,
                         gt_rating = s_rating example,
                         gt_optimal_path = s_optimal_path example\<rparr>\<rparr>,
                   extra_info =
                     \<lparr>ei_split = split_name,
                      ei_index = idx,
                      ei_operator_group = group_name,
                      ei_search_type = s_search_type example,
                      ei_heuristic = s_heuristic example\<rparr>\<rparr>))"

text \<open>
  \<^verbatim>\<open>dataset.map(function=process_fn, with_indices=True)\<close>: the function is applied to
  the rows in order, with the row's position, counted from the given start, as index.
  An exception in the function ends the map.
\<close>

fun dataset_map ::
  "('a \<Rightarrow> int \<Rightarrow> py_error + 'b) \<Rightarrow> 'a list \<Rightarrow> int \<Rightarrow> py_error + 'b list" where
  "dataset_map f [] idx = Inr []"
| "dataset_map f (example # rest) idx =
     (case f example idx of
        Inl e \<Rightarrow> Inl e
      | Inr r \<Rightarrow>
         (case dataset_map f rest (idx + 1) of
            Inl e \<Rightarrow> Inl e
          | Inr rs \<Rightarrow> Inr (r # rs)))"

text \<open>
  \<^verbatim>\<open>create_dataset(samples, split)\<close>: the column dictionary built from the samples
  and turned into a dataset has the samples as its rows, in order.
\<close>

definition create_dataset ::
  "int \<Rightarrow> ('sol, 'path) sample list \<Rightarrow> string \<Rightarrow> py_error + ('sol, 'path) training_record list"
  where
  "create_dataset group_idx samples split_name =
     dataset_map (process_fn group_idx split_name) samples 0"

subsection \<open>generate\_group\_data\<close>

text \<open>
  The parameter \<^verbatim>\<open>test_size\<close> is not read: the call that would draw the test
  samples is commented out and \<^verbatim>\<open>test_samples = train_samples\<close> takes its place.
\<close>

definition generate_group_data ::
  "('g, 'sol, 'path) env \<Rightarrow> int \<Rightarrow> int \<Rightarrow> int \<Rightarrow> 'g world \<Rightarrow>
     (py_error + (('sol, 'path) training_record list \<times> ('sol, 'path) training_record list)
        \<times> 'g world) option" where
  "generate_group_data E group_idx train_size test_size w =
     (case py_index operator_groups group_idx of
        Inl e \<Rightarrow> Some (Inl e)
      | Inr operators \<Rightarrow>
     (case py_index group_names group_idx of
        Inl e \<Rightarrow> Some (Inl e)
      | Inr group_name \<Rightarrow>
     (case generate_samples E operators group_idx train_size 0 w of
        None \<Rightarrow> None
      | Some (Inl e) \<Rightarrow> Some (Inl e)
      | Some (Inr (train_samples, w')) \<Rightarrow>
         let test_samples = train_samples
         in (case create_dataset group_idx train_samples ''train'' of
               Inl e \<Rightarrow> Some (Inl e)
             | Inr train_dataset \<Rightarrow>
                (case create_dataset group_idx test_samples ''test'' of
                   Inl e \<Rightarrow> Some (Inl e)
                 | Inr test_dataset \<Rightarrow> Some (Inr ((train_dataset, test_dataset), w')))))))"

subsection \<open>Solutions of puzzle instances\<close>

text \<open>
  Modelled from the spec: the puzzle engine (\<^verbatim>\<open>CountDown.generate\<close> and the form of
  its solutions) is missing from the sources. The spec's data model asks of an instance
  that there is a valid arithmetic expression using every number exactly once, with
  operators of the instance's group, that evaluates to the target.
\<close>

datatype expr = Num int | BinOp string expr expr

fun leaves :: "expr \<Rightarrow> int list" where
  "leaves (Num n) = [n]"
| "leaves (BinOp f a b) = leaves a @ leaves b"

fun ops_of :: "expr \<Rightarrow> string list" where
  "ops_of (Num n) = []"
| "ops_of (BinOp f a b) = f # ops_of a @ ops_of b"

fun apply_operator :: "string \<Rightarrow> rat \<Rightarrow> rat \<Rightarrow> rat option" where
  "apply_operator f x y =
     (if f = ''+'' then Some (x + y)
      else if f = ''-'' then Some (x - y)
      else if f = ''*'' then Some (x * y)
      else if f = ''/'' \<and> y \<noteq> 0 then Some (x / y)
      else None)"

fun eval :: "expr \<Rightarrow> rat option" where
  "eval (Num n) = Some (of_int n)"
| "eval (BinOp f a b) =
     (case eval a of
        None \<Rightarrow> None
      | Some x \<Rightarrow> (case eval b of None \<Rightarrow> None | Some y \<Rightarrow> apply_operator f x y))"

definition solves :: "string list \<Rightarrow> int list \<Rightarrow> int \<Rightarrow> expr \<Rightarrow> bool" where
  "solves operators nums target e =
     (mset (leaves e) = mset nums \<and> set (ops_of e) \<subseteq> set operators
      \<and> eval e = Some (of_int target))"

text \<open>
  Modelled from the spec: the contract of the missing \<^verbatim>\<open>CountDown.generate\<close>. A
  solution it returns, read as an expression by \<open>expr_of\<close>, is valid for the numbers and
  the target it was returned with, under the operators of the \<^verbatim>\<open>CountDown\<close> object.
\<close>

definition engine_sound :: "('g, 'sol, 'path) env \<Rightarrow> ('sol \<Rightarrow> expr) \<Rightarrow> bool" where
  "engine_sound E expr_of =
     (\<forall>cd target g nums sol g'.
        cd_generate E cd target g = ((nums, Some sol), g')
        \<longrightarrow> solves (cd_operators cd) nums target (expr_of sol))"

subsection \<open>What a call returns\<close>

text \<open>
  The result of a call without the final global state: \<^const>\<open>None\<close> when the call
  does not return, the exception it raises, or the value it returns.
\<close>

definition returned :: "('e + 'a \<times> 'w) option \<Rightarrow> ('e + 'a) option" where
  "returned r = map_option (map_sum id fst) r"

text \<open>The same run with another seed log: used to compare runs from different worlds.\<close>

definition relog :: "int list \<Rightarrow> 'a \<times> 'g world \<Rightarrow> 'a \<times> 'g world" where
  "relog l p = (fst p, (snd p)\<lparr>seed_log := l\<rparr>)"

definition relog_result ::
  "int list \<Rightarrow> ('e + 'a \<times> 'g world) option \<Rightarrow> ('e + 'a \<times> 'g world) option" where
  "relog_result l r = map_option (map_sum id (relog l)) r"

subsection \<open>A small instance of the collaborators\<close>

text \<open>
  A concrete random source (a linear congruential generator on the numbers below 1009)
  and a concrete engine, on which the definitions above run. The engine answers a
  target \<open>t\<close> and a size \<open>k + 1\<close> with the numbers \<open>t - k, 1, ..., 1\<close> and their sum
  as solution, and with no solution when the state of the source is a multiple of
  three or the operators lack the addition.
\<close>

fun toy_solution :: "int list \<Rightarrow> expr" where
  "toy_solution [] = Num 0"
| "toy_solution [x] = Num x"
| "toy_solution (x # y # ys) = BinOp ''+'' (Num x) (toy_solution (y # ys))"

definition toy_generate ::
  "countdown \<Rightarrow> int \<Rightarrow> nat \<Rightarrow> (int list \<times> expr option) \<times> nat" where
  "toy_generate cd target g =
     (let k = nat (cd_start_size cd) - 1;
          nums = (target - int k) # replicate k 1
      in if ''+'' \<in> set (cd_operators cd) \<and> g mod 3 \<noteq> 0
         then ((nums, Some (toy_solution nums)), (7 * g + 5) mod 1009)
         else ((nums, None), (7 * g + 5) mod 1009))"

definition toy_env :: "(nat, expr, string) env" where
  "toy_env =
     \<lparr>seed_state = (\<lambda>a. nat \<bar>a\<bar> mod 1009),
      randbelow = (\<lambda>n g. (g mod n, (5 * g + 7) mod 1009)),
      cd_generate = toy_generate,
      cd_convert_to_path =
        (\<lambda>cd target nums solution g. (str_int_list nums @ '' -> '' @ str_int target, g)),
      dfs = (\<lambda>target nums h threshold g.
               (if even target then ''dfs: Goal Reached'' else ''dfs: No solution'', g)),
      bfs = (\<lambda>target nums beam_size h g.
               (if beam_size > 2 then ''bfs: Goal Reached'' else ''bfs: No solution'', g))\<rparr>"

definition toy_world :: "nat world" where
  "toy_world = \<lparr>rng = 5, seed_log = []\<rparr>"

text \<open>The two samples the instance generates for group 1 from seed 43.\<close>

definition toy_samples :: "(expr, string) sample list" where
  "toy_samples =
     [\<lparr>s_target = 771, s_nums = [768, 1, 1, 1],
       s_solution = Some (BinOp ''+'' (Num 768) (BinOp ''+'' (Num 1) (BinOp ''+'' (Num 1) (Num 1)))),
       s_search_path = ''dfs: No solution'', s_rating = 0,
       s_optimal_path = ''[768, 1, 1, 1] -> 771'',
       s_search_type = ''dfs'', s_heuristic = ''mult_heuristic''\<rparr>,
      \<lparr>s_target = 598, s_nums = [596, 1, 1],
       s_solution = Some (BinOp ''+'' (Num 596) (BinOp ''+'' (Num 1) (Num 1))),
       s_search_path = ''bfs: Goal Reached'', s_rating = 1,
       s_optimal_path = ''[596, 1, 1] -> 598'',
       s_search_type = ''bfs_4'', s_heuristic = ''sum_heuristic''\<rparr>]"

section \<open>Properties\<close>

subsection \<open>The random source and the seed log\<close>

lemma draw_seed_log: "draw f w = (x, w') \<Longrightarrow> seed_log w' = seed_log w"
  by (auto simp: draw_def split: prod.splits)

lemma random_randint_seed_log:
  "random_randint E a b w = (x, w') \<Longrightarrow> seed_log w' = seed_log w"
  by (auto simp: random_randint_def split: prod.splits dest: draw_seed_log)

lemma random_choice_seed_log:
  "random_choice E xs w = (x, w') \<Longrightarrow> seed_log w' = seed_log w"
  by (auto simp: random_choice_def split: prod.splits dest: draw_seed_log)

lemma draw_relog:
  "draw f (w\<lparr>seed_log := l\<rparr>) = (case draw f w of (x, w') \<Rightarrow> (x, w'\<lparr>seed_log := l\<rparr>))"
  by (simp add: draw_def split: prod.splits)

lemma random_randint_relog:
  "random_randint E a b (w\<lparr>seed_log := l\<rparr>) =
     (case random_randint E a b w of (x, w') \<Rightarrow> (x, w'\<lparr>seed_log := l\<rparr>))"
  by (simp add: random_randint_def draw_relog split: prod.splits)

lemma random_choice_relog:
  "random_choice E xs (w\<lparr>seed_log := l\<rparr>) =
     (case random_choice E xs w of (x, w') \<Rightarrow> (x, w'\<lparr>seed_log := l\<rparr>))"
  by (simp add: random_choice_def draw_relog split: prod.splits)

lemma random_choice_in_set:
  assumes "env_wf E" and "xs \<noteq> []" and "random_choice E xs w = (x, w')"
  shows "x \<in> set xs"
proof -
  have "fst (randbelow E (length xs) (rng w)) < length xs"
    using assms(1,2) by (simp add: env_wf_def)
  with assms(3) show ?thesis
    by (auto simp: random_choice_def draw_def split: prod.splits)
qed

lemma random_choice_five:
  "random_choice E [a, b, c, d, e] v =
     ([a, b, c, d, e] ! fst (randbelow E 5 (rng v)), v\<lparr>rng := snd (randbelow E 5 (rng v))\<rparr>)"
proof -
  have len: "length [a, b, c, d, e] = 5" by simp
  show ?thesis
    unfolding random_choice_def len draw_def
    by (simp only: case_prod_beta fst_conv snd_conv)
qed

lemma choice_of_five:
  assumes "env_wf E" and "random_choice E [1, 2, 3, 4, 5 :: int] v = (b, v')"
  shows "b = 1 + int (fst (randbelow E 5 (rng v)))"
proof -
  define k where "k = fst (randbelow E 5 (rng v))"
  from assms(1) have "k < 5" by (simp add: env_wf_def k_def)
  then have "k = 0 \<or> k = 1 \<or> k = 2 \<or> k = 3 \<or> k = 4" by arith
  then have "[1, 2, 3, 4, 5 :: int] ! k = 1 + int k" by auto
  moreover from assms(2) have "b = [1, 2, 3, 4, 5 :: int] ! k"
    unfolding random_choice_five k_def by simp
  ultimately show ?thesis by (simp add: k_def)
qed

lemma beam_width_uniform:
  assumes wf: "env_wf E"
    and uni: "\<forall>k<5. card {g \<in> S. fst (randbelow E 5 g) = k} = c"
    and b: "b \<in> {1, 2, 3, 4, 5 :: int}"
  shows "card {g \<in> S. fst (random_choice E [1, 2, 3, 4, 5] \<lparr>rng = g, seed_log = l\<rparr>) = b} = c"
proof -
  define k where "k = nat (b - 1)"
  from b have k: "k < 5" "b = 1 + int k" by (auto simp: k_def)
  have "fst (random_choice E [1, 2, 3, 4, 5] \<lparr>rng = g, seed_log = l\<rparr>) = b
          \<longleftrightarrow> fst (randbelow E 5 g) = k" for g
  proof -
    obtain x v where c: "random_choice E [1, 2, 3, 4, 5 :: int] \<lparr>rng = g, seed_log = l\<rparr> = (x, v)"
      by force
    from choice_of_five [OF wf c] have "x = 1 + int (fst (randbelow E 5 g))" by simp
    with c k(2) show ?thesis by simp
  qed
  then have "{g \<in> S. fst (random_choice E [1, 2, 3, 4, 5] \<lparr>rng = g, seed_log = l\<rparr>) = b}
               = {g \<in> S. fst (randbelow E 5 g) = k}"
    by simp
  with uni k(1) show ?thesis by simp
qed

subsection \<open>The retry loop\<close>

text \<open>
  Fixpoint induction over the loop: what holds of an accepted attempt, and is handed on
  by a rejected one, holds whenever the loop returns.
\<close>

lemma retry_accepts_aux:
  "generate_samples_retry E cd w = Some y \<Longrightarrow>
     snd (snd (fst y)) \<noteq> None \<and> seed_log (snd y) = seed_log w
     \<and> (\<exists>g g'. cd_generate E cd (fst (fst y)) g
                  = ((fst (snd (fst y)), snd (snd (fst y))), g'))"
proof (induction rule: generate_samples_retry.raw_induct [rotated 1, consumes 1])
  case (1 retry E cd w y)
  obtain t w1 where r: "random_randint E 10 1000 w = (t, w1)" by force
  obtain ns sol w2 where d: "draw (cd_generate E cd t) w1 = ((ns, sol), w2)"
    by (metis surj_pair)
  have logs: "seed_log w2 = seed_log w"
    using random_randint_seed_log [OF r] draw_seed_log [OF d] by simp
  show ?case
  proof (cases "sol = None")
    case True
    with 1(2) r d have "retry E cd w2 = Some y" by simp
    from 1(1) [OF this] logs show ?thesis by simp
  next
    case False
    with 1(2) r d have eq: "y = ((t, ns, sol), w2)" by simp
    from d have "cd_generate E cd t (rng w1) = ((ns, sol), rng w2)"
      by (auto simp: draw_def split: prod.splits)
    with eq False logs show ?thesis by auto
  qed
qed

lemma retry_accepts:
  "generate_samples_retry E cd w = Some ((target, nums, solution), w') \<Longrightarrow>
     solution \<noteq> None \<and> seed_log w' = seed_log w
     \<and> (\<exists>g g'. cd_generate E cd target g = ((nums, solution), g'))"
  using retry_accepts_aux [of E cd w "((target, nums, solution), w')"] by simp

lemma retry_relog_Some:
  "generate_samples_retry E cd w = Some y \<Longrightarrow>
     (\<forall>l. generate_samples_retry E cd (w\<lparr>seed_log := l\<rparr>)
            = Some (fst y, (snd y)\<lparr>seed_log := l\<rparr>))"
proof (induction rule: generate_samples_retry.raw_induct [rotated 1, consumes 1])
  case (1 retry E cd w y)
  obtain t w1 where r: "random_randint E 10 1000 w = (t, w1)" by force
  obtain ns sol w2 where d: "draw (cd_generate E cd t) w1 = ((ns, sol), w2)"
    by (metis surj_pair)
  show ?case
  proof
    fix l
    have r': "random_randint E 10 1000 (w\<lparr>seed_log := l\<rparr>) = (t, w1\<lparr>seed_log := l\<rparr>)"
      by (simp add: random_randint_relog r)
    have d': "draw (cd_generate E cd t) (w1\<lparr>seed_log := l\<rparr>)
                = ((ns, sol), w2\<lparr>seed_log := l\<rparr>)"
      by (simp add: draw_relog d)
    show "generate_samples_retry E cd (w\<lparr>seed_log := l\<rparr>)
            = Some (fst y, (snd y)\<lparr>seed_log := l\<rparr>)"
    proof (cases "sol = None")
      case True
      with 1(2) r d have "retry E cd w2 = Some y" by simp
      from 1(1) [OF this]
      have "generate_samples_retry E cd (w2\<lparr>seed_log := l\<rparr>)
              = Some (fst y, (snd y)\<lparr>seed_log := l\<rparr>)"
        by simp
      with True r' d' show ?thesis
        by (subst generate_samples_retry.simps) simp
    next
      case False
      with 1(2) r d have eq: "y = ((t, ns, sol), w2)" by simp
      with False r' d' show ?thesis
        by (subst generate_samples_retry.simps) simp
    qed
  qed
qed

lemma retry_relog:
  "generate_samples_retry E cd (w\<lparr>seed_log := l\<rparr>)
     = map_option (relog l) (generate_samples_retry E cd w)"
proof (cases "generate_samples_retry E cd w")
  case (Some y)
  then show ?thesis using retry_relog_Some [OF Some] by (simp add: relog_def)
next
  case None
  show ?thesis
  proof (cases "generate_samples_retry E cd (w\<lparr>seed_log := l\<rparr>)")
    case None': None
    with None show ?thesis by simp
  next
    case (Some y)
    from retry_relog_Some [OF Some, rule_format, of "seed_log w"]
    have "generate_samples_retry E cd w \<noteq> None" by simp
    with None show ?thesis by simp
  qed
qed

text \<open>With an engine that always finds a solution the first attempt is accepted.\<close>

lemma retry_returns:
  assumes "\<forall>cd target g. snd (fst (cd_generate E cd target g)) \<noteq> None"
  shows "\<exists>y. generate_samples_retry E cd w = Some y"
proof -
  obtain t w1 where r: "random_randint E 10 1000 w = (t, w1)" by force
  obtain ns sol w2 where d: "draw (cd_generate E cd t) w1 = ((ns, sol), w2)"
    by (metis surj_pair)
  from d have "sol = snd (fst (cd_generate E cd t (rng w1)))"
    by (auto simp: draw_def split: prod.splits)
  with assms have "sol \<noteq> None" by simp
  with r d have "generate_samples_retry E cd w = Some ((t, ns, sol), w2)"
    by (subst generate_samples_retry.simps) simp
  then show ?thesis by blast
qed

subsection \<open>One iteration\<close>

lemma search_type_label_Dfs: "search_type_label Dfs beam_size = Inr ''dfs''"
  by (simp add: search_type_label_def)

lemma search_type_label_Bfs: "search_type_label Bfs (Some b) = Inr (''bfs_'' @ str_int b)"
  by (simp add: search_type_label_def)

lemma search_fn_not_Dfs: "search \<noteq> Dfs \<Longrightarrow> search = Bfs"
  by (cases search) simp_all

lemma body_relog:
  "generate_samples_body E operators (w\<lparr>seed_log := l\<rparr>) =
     relog_result l (generate_samples_body E operators w)"
proof -
  obtain start_size w1 where a: "random_randint E 3 4 w = (start_size, w1)" by force
  define cd where
    "cd = \<lparr>cd_max_target = 1000, cd_start_size = start_size, cd_operators = operators\<rparr>"
  show ?thesis
  proof (cases "generate_samples_retry E cd w1")
    case None
    then show ?thesis
      by (simp add: generate_samples_body_def relog_result_def random_randint_relog a
          retry_relog cd_def)
  next
    case (Some y)
    obtain target nums solution w2 where y: "y = ((target, nums, solution), w2)"
      by (metis surj_pair)
    obtain path w3 where
      b: "draw (cd_convert_to_path E cd target nums solution) w2 = (path, w3)"
      by force
    obtain heuristic w4 where
      c: "random_choice E [Sum_heuristic, Mult_heuristic] w3 = (heuristic, w4)"
      by force
    obtain search w5 where d: "random_choice E [Dfs, Bfs] w4 = (search, w5)"
      by force
    show ?thesis
    proof (cases "search = Dfs")
      case True
      obtain search_path w6 where
        e: "draw (dfs E target nums heuristic target) w5 = (search_path, w6)"
        by force
      from Some y a b c d e True show ?thesis
        by (simp add: generate_samples_body_def relog_result_def random_randint_relog
            retry_relog random_choice_relog draw_relog relog_def cd_def
            search_type_label_Dfs)
    next
      case False
      then have bfs: "search = Bfs" by (rule search_fn_not_Dfs)
      obtain beam_size w6 where
        e: "random_choice E [1, 2, 3, 4, 5 :: int] w5 = (beam_size, w6)"
        by force
      obtain search_path w7 where
        f: "draw (bfs E target nums beam_size heuristic) w6 = (search_path, w7)"
        by force
      from Some y a b c d e f bfs show ?thesis
        by (simp add: generate_samples_body_def relog_result_def random_randint_relog
            retry_relog random_choice_relog draw_relog relog_def cd_def
            search_type_label_Bfs)
    qed
  qed
qed

lemma body_Inr:
  assumes "generate_samples_body E operators w = Some (Inr (s, w'))"
  obtains start_size w1 target nums solution w2 path w3 heuristic w4 search w5
  where "random_randint E 3 4 w = (start_size, w1)"
    and "generate_samples_retry E
           \<lparr>cd_max_target = 1000, cd_start_size = start_size, cd_operators = operators\<rparr> w1
         = Some ((target, nums, solution), w2)"
    and "draw (cd_convert_to_path E
           \<lparr>cd_max_target = 1000, cd_start_size = start_size, cd_operators = operators\<rparr>
           target nums solution) w2 = (path, w3)"
    and "random_choice E [Sum_heuristic, Mult_heuristic] w3 = (heuristic, w4)"
    and "random_choice E [Dfs, Bfs] w4 = (search, w5)"
    and "search = Dfs \<Longrightarrow>
           draw (dfs E target nums heuristic target) w5 = (s_search_path s, w')
           \<and> s_search_type s = ''dfs''"
    and "search = Bfs \<Longrightarrow>
           \<exists>beam_size w6. random_choice E [1, 2, 3, 4, 5] w5 = (beam_size, w6)
             \<and> draw (bfs E target nums beam_size heuristic) w6 = (s_search_path s, w')
             \<and> s_search_type s = ''bfs_'' @ str_int beam_size"
    and "s_target s = target" and "s_nums s = nums" and "s_solution s = solution"
    and "s_rating s = (if str_contains ''Goal Reached'' (s_search_path s) then 1 else 0)"
    and "s_optimal_path s = path" and "s_heuristic s = heuristic_name heuristic"
proof -
  obtain start_size w1 where a: "random_randint E 3 4 w = (start_size, w1)" by force
  define cd where
    "cd = \<lparr>cd_max_target = 1000, cd_start_size = start_size, cd_operators = operators\<rparr>"
  from assms a obtain y where Some: "generate_samples_retry E cd w1 = Some y"
    by (cases "generate_samples_retry E cd w1") (auto simp: generate_samples_body_def cd_def)
  obtain target nums solution w2 where y: "y = ((target, nums, solution), w2)"
    by (metis surj_pair)
  obtain path w3 where
    b: "draw (cd_convert_to_path E cd target nums solution) w2 = (path, w3)"
    by force
  obtain heuristic w4 where
    c: "random_choice E [Sum_heuristic, Mult_heuristic] w3 = (heuristic, w4)"
    by force
  obtain search w5 where d: "random_choice E [Dfs, Bfs] w4 = (search, w5)"
    by force
  show ?thesis
  proof (cases "search = Dfs")
    case True
    obtain search_path w6 where
      e: "draw (dfs E target nums heuristic target) w5 = (search_path, w6)"
      by force
    from assms Some y a b c d e True
    have s: "s = \<lparr>s_target = target, s_nums = nums, s_solution = solution,
                  s_search_path = search_path,
                  s_rating = (if str_contains ''Goal Reached'' search_path then 1 else 0),
                  s_optimal_path = path, s_search_type = ''dfs'',
                  s_heuristic = heuristic_name heuristic\<rparr>" and w': "w' = w6"
      by (simp_all add: generate_samples_body_def cd_def search_type_label_Dfs)
    show ?thesis
      by (rule that [OF a Some [unfolded y cd_def] b [unfolded cd_def] c d])
         (use True e s w' in simp_all)
  next
    case False
    then have bfs: "search = Bfs" by (rule search_fn_not_Dfs)
    obtain beam_size w6 where
      e: "random_choice E [1, 2, 3, 4, 5 :: int] w5 = (beam_size, w6)"
      by force
    obtain search_path w7 where
      f: "draw (bfs E target nums beam_size heuristic) w6 = (search_path, w7)"
      by force
    from assms Some y a b c d e f bfs
    have s: "s = \<lparr>s_target = target, s_nums = nums, s_solution = solution,
                  s_search_path = search_path,
                  s_rating = (if str_contains ''Goal Reached'' search_path then 1 else 0),
                  s_optimal_path = path, s_search_type = ''bfs_'' @ str_int beam_size,
                  s_heuristic = heuristic_name heuristic\<rparr>" and w': "w' = w7"
      by (simp_all add: generate_samples_body_def cd_def search_type_label_Bfs)
    show ?thesis
      by (rule that [OF a Some [unfolded y cd_def] b [unfolded cd_def] c d])
         (use bfs e f s w' in simp_all)
  qed
qed

lemma body_seed_log:
  assumes "generate_samples_body E operators w = Some (Inr (s, w'))"
  shows "seed_log w' = seed_log w"
  using assms
proof (cases rule: body_Inr)
  case (1 start_size w1 target nums solution w2 path w3 heuristic w4 search w5)
  have w5: "seed_log w5 = seed_log w"
    using random_randint_seed_log [OF 1(1)] retry_accepts [OF 1(2)] draw_seed_log [OF 1(3)]
      random_choice_seed_log [OF 1(4)] random_choice_seed_log [OF 1(5)]
    by simp
  show ?thesis
  proof (cases search)
    case Dfs
    with 1(6) w5 show ?thesis by (auto dest: draw_seed_log)
  next
    case Bfs
    with 1(7) obtain beam_size w6 where
      "random_choice E [1, 2, 3, 4, 5] w5 = (beam_size, w6)"
      "draw (bfs E target nums beam_size heuristic) w6 = (s_search_path s, w')"
      by blast
    then have "seed_log w' = seed_log w5"
      using random_choice_seed_log draw_seed_log by metis
    with w5 show ?thesis by simp
  qed
qed

text \<open>The unbound variable is never read: an iteration raises nothing.\<close>

lemma body_no_error: "generate_samples_body E operators w \<noteq> Some (Inl e)"
proof -
  obtain start_size w1 where a: "random_randint E 3 4 w = (start_size, w1)" by force
  define cd where
    "cd = \<lparr>cd_max_target = 1000, cd_start_size = start_size, cd_operators = operators\<rparr>"
  show ?thesis
  proof (cases "generate_samples_retry E cd w1")
    case None
    with a show ?thesis by (simp add: generate_samples_body_def cd_def)
  next
    case (Some y)
    obtain target nums solution w2 where y: "y = ((target, nums, solution), w2)"
      by (metis surj_pair)
    obtain path w3 where
      b: "draw (cd_convert_to_path E cd target nums solution) w2 = (path, w3)"
      by force
    obtain heuristic w4 where
      c: "random_choice E [Sum_heuristic, Mult_heuristic] w3 = (heuristic, w4)"
      by force
    obtain search w5 where d: "random_choice E [Dfs, Bfs] w4 = (search, w5)"
      by force
    show ?thesis
    proof (cases "search = Dfs")
      case True
      obtain search_path w6 where
        e: "draw (dfs E target nums heuristic target) w5 = (search_path, w6)"
        by force
      from Some y a b c d e True show ?thesis
        by (simp add: generate_samples_body_def cd_def search_type_label_Dfs)
    next
      case False
      then have bfs: "search = Bfs" by (rule search_fn_not_Dfs)
      obtain beam_size w6 where
        e: "random_choice E [1, 2, 3, 4, 5 :: int] w5 = (beam_size, w6)"
        by force
      obtain search_path w7 where
        f: "draw (bfs E target nums beam_size heuristic) w6 = (search_path, w7)"
        by force
      from Some y a b c d e f bfs show ?thesis
        by (simp add: generate_samples_body_def cd_def search_type_label_Bfs)
    qed
  qed
qed

lemma body_returns:
  assumes "\<forall>cd target g. snd (fst (cd_generate E cd target g)) \<noteq> None"
  shows "\<exists>s w'. generate_samples_body E operators w = Some (Inr (s, w'))"
proof -
  obtain start_size w1 where a: "random_randint E 3 4 w = (start_size, w1)" by force
  define cd where
    "cd = \<lparr>cd_max_target = 1000, cd_start_size = start_size, cd_operators = operators\<rparr>"
  from retry_returns [OF assms] obtain y where Some: "generate_samples_retry E cd w1 = Some y"
    by blast
  obtain target nums solution w2 where y: "y = ((target, nums, solution), w2)"
    by (metis surj_pair)
  obtain path w3 where
    b: "draw (cd_convert_to_path E cd target nums solution) w2 = (path, w3)"
    by force
  obtain heuristic w4 where
    c: "random_choice E [Sum_heuristic, Mult_heuristic] w3 = (heuristic, w4)"
    by force
  obtain search w5 where d: "random_choice E [Dfs, Bfs] w4 = (search, w5)"
    by force
  show ?thesis
  proof (cases "search = Dfs")
    case True
    obtain search_path w6 where
      e: "draw (dfs E target nums heuristic target) w5 = (search_path, w6)"
      by force
    from Some y a b c d e True show ?thesis
      by (simp add: generate_samples_body_def cd_def search_type_label_Dfs)
  next
    case False
    then have bfs: "search = Bfs" by (rule search_fn_not_Dfs)
    obtain beam_size w6 where
      e: "random_choice E [1, 2, 3, 4, 5 :: int] w5 = (beam_size, w6)"
      by force
    obtain search_path w7 where
      f: "draw (bfs E target nums beam_size heuristic) w6 = (search_path, w7)"
      by force
    from Some y a b c d e f bfs show ?thesis
      by (simp add: generate_samples_body_def cd_def search_type_label_Bfs)
  qed
qed

subsection \<open>The loop over the samples\<close>

text \<open>
  The seed log has no influence on a run: from two worlds with the same state of the
  random source the loop produces the same samples. Seeding makes the two states equal,
  so a pass returns the same samples from any two worlds.
\<close>

lemma loop_relog:
  "generate_samples_loop E operators n samples (w\<lparr>seed_log := l\<rparr>) =
     relog_result l (generate_samples_loop E operators n samples w)"
proof (induction n arbitrary: samples w)
  case 0
  show ?case by (simp add: relog_result_def relog_def)
next
  case (Suc n)
  show ?case
  proof (cases "generate_samples_body E operators w")
    case None
    then show ?thesis by (simp add: body_relog relog_result_def)
  next
    case (Some r)
    show ?thesis
    proof (cases r)
      case (Inl e)
      with Some show ?thesis by (simp add: body_relog relog_result_def)
    next
      case (Inr p)
      obtain s w' where p: "p = (s, w')" by force
      with Some Inr Suc.IH [of "samples @ [s]" w'] show ?thesis
        by (simp add: body_relog relog_result_def relog_def)
    qed
  qed
qed

lemma returned_relog: "returned (relog_result l r) = returned r"
  by (cases r) (auto simp: returned_def relog_result_def relog_def map_sum_def split: sum.splits)

lemma generate_samples_returned:
  "returned (generate_samples E operators group_idx n off w1) =
   returned (generate_samples E operators group_idx n off w2)"
proof -
  let ?a = "42 + group_idx + off"
  have "random_seed E ?a w2 = (random_seed E ?a w1)\<lparr>seed_log := seed_log w2 @ [?a]\<rparr>"
    by (simp add: random_seed_def)
  then show ?thesis
    by (simp add: generate_samples_def loop_relog returned_relog)
qed

lemma loop_Inr:
  "generate_samples_loop E operators n acc w = Some (Inr (samples, w')) \<Longrightarrow>
     \<exists>new. samples = acc @ new \<and> length new = n \<and> seed_log w' = seed_log w
       \<and> (\<forall>s\<in>set new. (\<exists>w0 w1. generate_samples_body E operators w0 = Some (Inr (s, w1))))"
proof (induction n arbitrary: acc w)
  case 0
  then show ?case by simp
next
  case (Suc n)
  from Suc.prems obtain s w1 where
    b: "generate_samples_body E operators w = Some (Inr (s, w1))" and
    l: "generate_samples_loop E operators n (acc @ [s]) w1 = Some (Inr (samples, w'))"
    by (auto split: option.splits sum.splits)
  from Suc.IH [OF l] obtain new where
    new: "samples = (acc @ [s]) @ new" "length new = n" "seed_log w' = seed_log w1"
      "\<forall>x\<in>set new. (\<exists>w0 w1. generate_samples_body E operators w0 = Some (Inr (x, w1)))"
    by blast
  have "(\<exists>w0 w1. generate_samples_body E operators w0 = Some (Inr (s, w1)))" using b by blast
  with new body_seed_log [OF b] have
    "samples = acc @ (s # new) \<and> length (s # new) = Suc n \<and> seed_log w' = seed_log w
       \<and> (\<forall>x\<in>set (s # new). (\<exists>w0 w1. generate_samples_body E operators w0 = Some (Inr (x, w1))))"
    by simp
  then show ?case by blast
qed

lemma loop_no_error: "generate_samples_loop E operators n acc w \<noteq> Some (Inl e)"
  by (induction n arbitrary: acc w)
     (auto simp: body_no_error split: option.splits sum.splits)

lemma generate_samples_Inr:
  assumes "generate_samples E operators group_idx n off w = Some (Inr (samples, w'))"
  shows "length samples = nat n" and "seed_log w' = seed_log w @ [42 + group_idx + off]"
    and "s \<in> set samples \<Longrightarrow> (\<exists>w0 w1. generate_samples_body E operators w0 = Some (Inr (s, w1)))"
proof -
  from assms loop_Inr [of E operators "nat n" "[]" "random_seed E (42 + group_idx + off) w" samples w']
  obtain new where new: "samples = new" "length new = nat n"
    "seed_log w' = seed_log (random_seed E (42 + group_idx + off) w)"
    "\<forall>s\<in>set new. (\<exists>w0 w1. generate_samples_body E operators w0 = Some (Inr (s, w1)))"
    by (auto simp: generate_samples_def)
  from new show "length samples = nat n" by simp
  from new show "seed_log w' = seed_log w @ [42 + group_idx + off]"
    by (simp add: random_seed_def)
  from new show "s \<in> set samples \<Longrightarrow> (\<exists>w0 w1. generate_samples_body E operators w0 = Some (Inr (s, w1)))" by simp
qed

lemma generate_samples_no_error:
  "generate_samples E operators group_idx n off w \<noteq> Some (Inl e)"
  by (simp add: generate_samples_def loop_no_error)

lemma loop_returns:
  assumes "\<forall>cd target g. snd (fst (cd_generate E cd target g)) \<noteq> None"
  shows "\<exists>samples w'. generate_samples_loop E operators n acc w = Some (Inr (samples, w'))"
proof (induction n arbitrary: acc w)
  case 0
  show ?case by simp
next
  case (Suc n)
  from body_returns [OF assms] obtain s w1 where
    "generate_samples_body E operators w = Some (Inr (s, w1))"
    by blast
  with Suc.IH [of "acc @ [s]" w1] show ?case by simp
qed

lemma generate_samples_returns:
  assumes "\<forall>cd target g. snd (fst (cd_generate E cd target g)) \<noteq> None"
  shows "\<exists>samples w'.
           generate_samples E operators group_idx n off w = Some (Inr (samples, w'))"
  unfolding generate_samples_def by (rule loop_returns [OF assms])

lemma loop_iteration:
  "generate_samples_loop E operators n acc w = Some (Inr (samples, w')) \<Longrightarrow> i < n \<Longrightarrow>
     \<exists>v v'. generate_samples_loop E operators i acc w
               = Some (Inr (take (length acc + i) samples, v))
       \<and> generate_samples_body E operators v = Some (Inr (samples ! (length acc + i), v'))
       \<and> seed_log v = seed_log w \<and> seed_log v' = seed_log w"
proof (induction n arbitrary: acc w i)
  case 0
  then show ?case by simp
next
  case (Suc n)
  from Suc.prems(1) obtain s w1 where
    b: "generate_samples_body E operators w = Some (Inr (s, w1))" and
    l: "generate_samples_loop E operators n (acc @ [s]) w1 = Some (Inr (samples, w'))"
    by (auto split: option.splits sum.splits)
  from loop_Inr [OF l] obtain new where new: "samples = (acc @ [s]) @ new" by blast
  show ?case
  proof (cases i)
    case 0
    with b new body_seed_log [OF b] show ?thesis by (auto simp: nth_append)
  next
    case (Suc j)
    with Suc.prems(2) have "j < n" by simp
    from Suc.IH [OF l this] obtain v v' where
      "generate_samples_loop E operators j (acc @ [s]) w1
         = Some (Inr (take (length (acc @ [s]) + j) samples, v))"
      "generate_samples_body E operators v = Some (Inr (samples ! (length (acc @ [s]) + j), v'))"
      "seed_log v = seed_log w1" "seed_log v' = seed_log w1"
      by blast
    with b Suc body_seed_log [OF b] show ?thesis by simp
  qed
qed

lemma sample_iteration:
  assumes "generate_samples E operators group_idx n off w = Some (Inr (samples, w'))"
    and "i < length samples"
  shows "\<exists>v v'. generate_samples_loop E operators i []
                   (random_seed E (42 + group_idx + off) w) = Some (Inr (take i samples, v))
       \<and> generate_samples_body E operators v = Some (Inr (samples ! i, v'))
       \<and> seed_log v = seed_log w @ [42 + group_idx + off]
       \<and> seed_log v' = seed_log w @ [42 + group_idx + off]"
proof -
  from assms(2) generate_samples_Inr(1) [OF assms(1)] have "i < nat n" by simp
  from loop_iteration [OF assms(1) [unfolded generate_samples_def] this]
  show ?thesis by (simp add: random_seed_def)
qed

lemma sample_from_engine:
  assumes "generate_samples E operators group_idx n off w = Some (Inr (samples, w'))"
    and "s \<in> set samples"
  shows "s_solution s \<noteq> None
       \<and> (\<exists>cd g g'. cd_operators cd = operators
              \<and> cd_generate E cd (s_target s) g = ((s_nums s, s_solution s), g'))"
proof -
  from generate_samples_Inr(3) [OF assms] obtain w0 w1 where
    "generate_samples_body E operators w0 = Some (Inr (s, w1))"
    by blast
  then show ?thesis
  proof (cases rule: body_Inr)
    case (1 start_size v1 target nums solution v2 path v3 heuristic v4 search v5)
    from retry_accepts [OF 1(2)] obtain g g' where
      "solution \<noteq> None"
      "cd_generate E \<lparr>cd_max_target = 1000, cd_start_size = start_size,
                       cd_operators = operators\<rparr> target g = ((nums, solution), g')"
      by blast
    with 1(8,9,10) show ?thesis
      by (metis countdown.select_convs(3))
  qed
qed

lemma sample_rating:
  assumes "generate_samples E operators group_idx n off w = Some (Inr (samples, w'))"
    and "s \<in> set samples"
  shows "s_rating s = (if str_contains ''Goal Reached'' (s_search_path s) then 1 else 0)"
proof -
  from generate_samples_Inr(3) [OF assms] obtain w0 w1 where
    "generate_samples_body E operators w0 = Some (Inr (s, w1))"
    by blast
  then show ?thesis
    by (cases rule: body_Inr)
qed

subsection \<open>Datasets\<close>

text \<open>
  The rows of a dataset are the results of \<^const>\<open>process_fn\<close> on the samples, in
  order, each with its position as index. With a valid group index no row fails.
\<close>

lemma join_four: "join '', '' [''+'', ''-'', ''*'', ''/''] = ''+, -, *, /''"
  by simp

lemma make_prefix_base:
  "make_prefix dp [''+'', ''-'', ''*'', ''/''] ''base'' =
     Inr (''A conversation between User and Assistant. The user asks a question, and the Assistant solves it. The assistant first thinks about the reasoning process in the mind and then provides the user with the answer.''
          @ nl @ ''User: Using the numbers '' @ str_int_list (s_nums dp)
          @ '', create an equation that equals '' @ str_int (s_target dp)
          @ ''. You can use basic arithmetic operations (+, -, *, /) and each number can only be used once. Show your work in <think> </think> tags. And return the final answer in <answer> </answer> tags, for example <answer> (1 + 2) / 3 </answer>.''
          @ nl @ ''Assistant: Let me solve this step by step.'' @ nl @ ''<think>'')"
  by (simp add: make_prefix_def task_sentence_def)

lemma process_fn_Inr:
  assumes "process_fn group_idx split_name example idx = Inr r"
  shows "\<exists>question group_name.
           make_prefix example [''+'', ''-'', ''*'', ''/''] ''base'' = Inr question
           \<and> py_index group_names group_idx = Inr group_name
           \<and> r = \<lparr>data_source = ''countdown_continual'',
                    prompt = [\<lparr>role = ''user'', content = question\<rparr>],
                    ability = ''math'',
                    reward_model =
                      \<lparr>style = ''rule'',
                       ground_truth =
                         \<lparr>gt_target = s_target example,
                          gt_numbers = s_nums example,
                          gt_solution = s_solution example,
                          gt_search_path = s_search_path example,
                          gt_rating = s_rating example,
                          gt_optimal_path = s_optimal_path example\<rparr>\<rparr>,
                    extra_info =
                      \<lparr>ei_split = split_name,
                       ei_index = idx,
                       ei_operator_group = group_name,
                       ei_search_type = s_search_type example,
                       ei_heuristic = s_heuristic example\<rparr>\<rparr>"
  using assms unfolding process_fn_def
  by (cases "make_prefix example [''+'', ''-'', ''*'', ''/''] ''base''";
      cases "py_index group_names group_idx") simp_all

lemma process_fn_total:
  "py_index group_names group_idx = Inr group_name \<Longrightarrow>
     \<exists>r. process_fn group_idx split_name example idx = Inr r"
  by (simp add: process_fn_def make_prefix_base)

lemma process_fn_split:
  assumes "process_fn group_idx a example idx = Inr r"
  shows "process_fn group_idx b example idx
           = Inr (r\<lparr>extra_info := (extra_info r)\<lparr>ei_split := b\<rparr>\<rparr>)"
    and "ei_split (extra_info r) = a"
proof -
  from process_fn_Inr [OF assms] obtain question group_name where
    q: "make_prefix example [''+'', ''-'', ''*'', ''/''] ''base'' = Inr question"
    and g: "py_index group_names group_idx = Inr group_name"
    and r: "r = \<lparr>data_source = ''countdown_continual'',
                    prompt = [\<lparr>role = ''user'', content = question\<rparr>],
                    ability = ''math'',
                    reward_model =
                      \<lparr>style = ''rule'',
                       ground_truth =
                         \<lparr>gt_target = s_target example,
                          gt_numbers = s_nums example,
                          gt_solution = s_solution example,
                          gt_search_path = s_search_path example,
                          gt_rating = s_rating example,
                          gt_optimal_path = s_optimal_path example\<rparr>\<rparr>,
                    extra_info =
                      \<lparr>ei_split = a,
                       ei_index = idx,
                       ei_operator_group = group_name,
                       ei_search_type = s_search_type example,
                       ei_heuristic = s_heuristic example\<rparr>\<rparr>"
    by blast
  from r show "ei_split (extra_info r) = a" by simp
  from q g r show "process_fn group_idx b example idx
           = Inr (r\<lparr>extra_info := (extra_info r)\<lparr>ei_split := b\<rparr>\<rparr>)"
    by (simp add: process_fn_def)
qed

lemma dataset_map_Inr:
  "dataset_map f xs k = Inr rs \<Longrightarrow>
     length rs = length xs \<and> (\<forall>i<length xs. f (xs ! i) (k + int i) = Inr (rs ! i))"
proof (induction xs arbitrary: k rs)
  case Nil
  then show ?case by simp
next
  case (Cons x xs)
  from Cons.prems obtain r rest where
    r: "f x k = Inr r" and rest: "dataset_map f xs (k + 1) = Inr rest" and rs: "rs = r # rest"
    by (auto split: sum.splits)
  from Cons.IH [OF rest] have
    len: "length rest = length xs" and
    nth: "\<And>i. i < length xs \<Longrightarrow> f (xs ! i) (k + 1 + int i) = Inr (rest ! i)"
    by simp_all
  have "f ((x # xs) ! i) (k + int i) = Inr (rs ! i)" if "i < length (x # xs)" for i
  proof (cases i)
    case 0
    with r rs show ?thesis by simp
  next
    case (Suc j)
    with that nth [of j] rs show ?thesis by (simp add: algebra_simps)
  qed
  with len rs show ?case by simp
qed

lemma dataset_map_total:
  "(\<And>x i. \<exists>r. f x i = Inr r) \<Longrightarrow> \<exists>rs. dataset_map f xs k = Inr rs"
proof (induction xs arbitrary: k)
  case Nil
  show ?case by simp
next
  case (Cons x xs)
  from Cons.prems obtain r where r: "f x k = Inr r" by blast
  from Cons.IH [OF Cons.prems] obtain rs where "dataset_map f xs (k + 1) = Inr rs" by blast
  with r show ?case by simp
qed

lemma create_dataset_rows:
  assumes "create_dataset group_idx samples split_name = Inr rs"
  shows "length rs = length samples"
    and "i < length samples \<Longrightarrow>
           process_fn group_idx split_name (samples ! i) (int i) = Inr (rs ! i)"
  using dataset_map_Inr [OF assms [unfolded create_dataset_def]] by simp_all

lemma create_dataset_member:
  assumes "create_dataset group_idx samples split_name = Inr rs" and "r \<in> set rs"
  shows "\<exists>s\<in>set samples. \<exists>idx. process_fn group_idx split_name s idx = Inr r"
proof -
  from assms(2) obtain i where i: "i < length rs" "rs ! i = r"
    by (auto simp: in_set_conv_nth)
  with create_dataset_rows [OF assms(1)] have
    "i < length samples" "process_fn group_idx split_name (samples ! i) (int i) = Inr r"
    by auto
  then show ?thesis by (metis nth_mem)
qed

lemma create_dataset_total:
  "py_index group_names group_idx = Inr group_name \<Longrightarrow>
     \<exists>rs. create_dataset group_idx samples split_name = Inr rs"
  unfolding create_dataset_def
  by (rule dataset_map_total) (rule process_fn_total)

lemma create_dataset_index:
  assumes "create_dataset group_idx samples split_name = Inr rs"
  shows "map (\<lambda>r. ei_index (extra_info r)) rs = map int [0..<length rs]"
proof (rule nth_equalityI)
  show "length (map (\<lambda>r. ei_index (extra_info r)) rs) = length (map int [0..<length rs])"
    by simp
next
  fix i assume "i < length (map (\<lambda>r. ei_index (extra_info r)) rs)"
  then have i: "i < length rs" by simp
  with create_dataset_rows [OF assms] have
    "process_fn group_idx split_name (samples ! i) (int i) = Inr (rs ! i)"
    by simp
  from process_fn_Inr [OF this] have "ei_index (extra_info (rs ! i)) = int i" by auto
  with i show "map (\<lambda>r. ei_index (extra_info r)) rs ! i = map int [0..<length rs] ! i"
    by simp
qed

lemma create_dataset_split:
  assumes "create_dataset group_idx samples a = Inr ra"
    and "create_dataset group_idx samples b = Inr rb"
  shows "rb = map (\<lambda>r. r\<lparr>extra_info := (extra_info r)\<lparr>ei_split := b\<rparr>\<rparr>) ra"
proof (rule nth_equalityI)
  show "length rb = length (map (\<lambda>r. r\<lparr>extra_info := (extra_info r)\<lparr>ei_split := b\<rparr>\<rparr>) ra)"
    using create_dataset_rows(1) [OF assms(1)] create_dataset_rows(1) [OF assms(2)] by simp
next
  fix i assume "i < length rb"
  then have i: "i < length samples" using create_dataset_rows(1) [OF assms(2)] by simp
  from process_fn_split(1) [OF create_dataset_rows(2) [OF assms(1) i], of b]
    create_dataset_rows(2) [OF assms(2) i]
  have "rb ! i = (ra ! i)\<lparr>extra_info := (extra_info (ra ! i))\<lparr>ei_split := b\<rparr>\<rparr>"
    by simp
  with i create_dataset_rows(1) [OF assms(1)]
  show "rb ! i = map (\<lambda>r. r\<lparr>extra_info := (extra_info r)\<lparr>ei_split := b\<rparr>\<rparr>) ra ! i"
    by simp
qed

lemma create_dataset_split_tag:
  assumes "create_dataset group_idx samples a = Inr ra" and "r \<in> set ra"
  shows "ei_split (extra_info r) = a"
  using create_dataset_member [OF assms] process_fn_split(2) by blast

subsection \<open>The data of a group\<close>

lemma generate_group_data_Inr:
  assumes "generate_group_data E group_idx train_size test_size w = Some (Inr ((train, test), w'))"
  obtains operators group_name samples
  where "py_index operator_groups group_idx = Inr operators"
    and "py_index group_names group_idx = Inr group_name"
    and "generate_samples E operators group_idx train_size 0 w = Some (Inr (samples, w'))"
    and "create_dataset group_idx samples ''train'' = Inr train"
    and "create_dataset group_idx samples ''test'' = Inr test"
  using assms unfolding generate_group_data_def
  by (auto split: sum.splits option.splits simp: Let_def)

lemma generate_group_data_returned:
  "returned (generate_group_data E group_idx train_size test_size w1) =
   returned (generate_group_data E group_idx train_size test_size w2)"
proof (cases "py_index operator_groups group_idx")
  case (Inl e)
  then show ?thesis by (simp add: generate_group_data_def)
next
  case ops: (Inr operators)
  show ?thesis
  proof (cases "py_index group_names group_idx")
    case (Inl e)
    with ops show ?thesis by (simp add: generate_group_data_def)
  next
    case (Inr group_name)
    have same: "returned (generate_samples E operators group_idx train_size 0 w1) =
          returned (generate_samples E operators group_idx train_size 0 w2)"
      by (rule generate_samples_returned)
    show ?thesis
    proof (cases "generate_samples E operators group_idx train_size 0 w1")
      case None
      with same have "generate_samples E operators group_idx train_size 0 w2 = None"
        by (simp add: returned_def)
      with None ops Inr show ?thesis by (simp add: generate_group_data_def)
    next
      case (Some r1)
      with same obtain r2 where
        r2: "generate_samples E operators group_idx train_size 0 w2 = Some r2"
        and eq: "map_sum id fst r1 = map_sum id fst r2"
        by (cases "generate_samples E operators group_idx train_size 0 w2")
           (auto simp: returned_def)
      from Some r2 eq ops Inr show ?thesis
        by (cases r1; cases r2)
           (auto simp: generate_group_data_def returned_def split: sum.splits)
    qed
  qed
qed

lemma py_index_in_range:
  "- int (length xs) \<le> i \<Longrightarrow> i < int (length xs) \<Longrightarrow> \<exists>x. py_index xs i = Inr x"
  by (simp add: py_index_def)

lemma generate_group_data_returns:
  assumes "\<forall>cd target g. snd (fst (cd_generate E cd target g)) \<noteq> None"
    and "- 4 \<le> group_idx" and "group_idx < 4"
  shows "\<exists>train test w'.
           generate_group_data E group_idx train_size test_size w
             = Some (Inr ((train, test), w'))"
proof -
  from assms(2,3) obtain operators where o: "py_index operator_groups group_idx = Inr operators"
    using py_index_in_range [of operator_groups group_idx] by (auto simp: operator_groups_def)
  from assms(2,3) obtain group_name where g: "py_index group_names group_idx = Inr group_name"
    using py_index_in_range [of group_names group_idx] by (auto simp: group_names_def)
  from generate_samples_returns [OF assms(1)] obtain samples w' where
    s: "generate_samples E operators group_idx train_size 0 w = Some (Inr (samples, w'))"
    by blast
  from create_dataset_total [OF g] obtain train where
    tr: "create_dataset group_idx samples ''train'' = Inr train"
    by blast
  from create_dataset_total [OF g] obtain test where
    te: "create_dataset group_idx samples ''test'' = Inr test"
    by blast
  from o g s tr te show ?thesis by (simp add: generate_group_data_def)
qed

lemma generate_group_data_seed_log:
  assumes "generate_group_data E group_idx train_size test_size w = Some (Inr (splits, w'))"
  shows "seed_log w' = seed_log w @ [42 + group_idx]"
proof -
  obtain train test where "splits = (train, test)" by force
  with assms obtain operators group_name samples where
    "generate_samples E operators group_idx train_size 0 w = Some (Inr (samples, w'))"
    by (auto elim: generate_group_data_Inr)
  from generate_samples_Inr(2) [OF this] show ?thesis by simp
qed

lemma str_int_digits:
  "str_int 1 = ''1''" "str_int 2 = ''2''" "str_int 3 = ''3''" "str_int 4 = ''4''"
  "str_int 5 = ''5''"
  by (simp_all add: str_int_def digit_char_def)

text \<open>
  The label of the record at position \<open>i\<close>, read off the draws of iteration \<open>i\<close> of
  the pass: the world before that iteration is the one the loop reaches from the seeded
  world after \<open>i\<close> iterations.
\<close>

lemma record_search_type:
  assumes "generate_group_data E group_idx train_size test_size w = Some (Inr ((train, test), w'))"
    and "i < length train" and "r = train ! i \<or> r = test ! i"
  shows "(\<exists>operators prefix v0 start_size v1 solution v2 path v3 heuristic v4 search v5.
            py_index operator_groups group_idx = Inr operators
          \<and> generate_samples_loop E operators i [] (random_seed E (42 + group_idx + 0) w)
              = Some (Inr (prefix, v0))
          \<and> random_randint E 3 4 v0 = (start_size, v1)
          \<and> generate_samples_retry E
                \<lparr>cd_max_target = 1000, cd_start_size = start_size, cd_operators = operators\<rparr> v1
              = Some ((gt_target (ground_truth (reward_model r)),
                       gt_numbers (ground_truth (reward_model r)), solution), v2)
          \<and> draw (cd_convert_to_path E
                \<lparr>cd_max_target = 1000, cd_start_size = start_size, cd_operators = operators\<rparr>
                (gt_target (ground_truth (reward_model r)))
                (gt_numbers (ground_truth (reward_model r))) solution) v2 = (path, v3)
          \<and> random_choice E [Sum_heuristic, Mult_heuristic] v3 = (heuristic, v4)
          \<and> random_choice E [Dfs, Bfs] v4 = (search, v5)
          \<and> (search = Dfs \<longrightarrow>
                ei_search_type (extra_info r) = search_name search
              \<and> gt_search_path (ground_truth (reward_model r))
                  = fst (draw (dfs E (gt_target (ground_truth (reward_model r)))
                                (gt_numbers (ground_truth (reward_model r))) heuristic
                                (gt_target (ground_truth (reward_model r)))) v5))
          \<and> (search = Bfs \<longrightarrow>
                (\<exists>beam_size v6.
                    random_choice E [1, 2, 3, 4, 5] v5 = (beam_size, v6)
                  \<and> ei_search_type (extra_info r)
                      = search_name search @ ''_'' @ str_int beam_size
                  \<and> gt_search_path (ground_truth (reward_model r))
                      = fst (draw (bfs E (gt_target (ground_truth (reward_model r)))
                                    (gt_numbers (ground_truth (reward_model r))) beam_size
                                    heuristic) v6)
                  \<and> (env_wf E \<longrightarrow>
                        beam_size = 1 + int (fst (randbelow E 5 (rng v5)))
                      \<and> beam_size \<in> {1, 2, 3, 4, 5}))))
       \<and> (env_wf E \<longrightarrow>
             ei_search_type (extra_info r)
               \<in> {''dfs'', ''bfs_1'', ''bfs_2'', ''bfs_3'', ''bfs_4'', ''bfs_5''})"
proof -
  from assms(1) obtain operators group_name samples where
    ops: "py_index operator_groups group_idx = Inr operators" and
    gen: "generate_samples E operators group_idx train_size 0 w = Some (Inr (samples, w'))" and
    tr: "create_dataset group_idx samples ''train'' = Inr train" and
    te: "create_dataset group_idx samples ''test'' = Inr test"
    by (rule generate_group_data_Inr)
  from assms(2) create_dataset_rows(1) [OF tr] have i: "i < length samples" by simp
  define s where "s = samples ! i"
  from assms(3) create_dataset_rows(2) [OF tr i] create_dataset_rows(2) [OF te i]
  obtain split_name where "process_fn group_idx split_name s (int i) = Inr r"
    unfolding s_def by auto
  from process_fn_Inr [OF this] have r:
    "gt_target (ground_truth (reward_model r)) = s_target s"
    "gt_numbers (ground_truth (reward_model r)) = s_nums s"
    "gt_search_path (ground_truth (reward_model r)) = s_search_path s"
    "ei_search_type (extra_info r) = s_search_type s"
    by auto
  from sample_iteration [OF gen i] obtain v0 v_end where
    loop: "generate_samples_loop E operators i [] (random_seed E (42 + group_idx + 0) w)
             = Some (Inr (take i samples, v0))" and
    body: "generate_samples_body E operators v0 = Some (Inr (s, v_end))"
    unfolding s_def by blast
  from body show ?thesis
  proof (cases rule: body_Inr)
    case (1 start_size v1 target nums solution v2 path v3 heuristic v4 search v5)
    have retry: "generate_samples_retry E
                \<lparr>cd_max_target = 1000, cd_start_size = start_size, cd_operators = operators\<rparr> v1
              = Some ((s_target s, s_nums s, solution), v2)"
      using 1(2,8,9) by simp
    have path: "draw (cd_convert_to_path E
                \<lparr>cd_max_target = 1000, cd_start_size = start_size, cd_operators = operators\<rparr>
                (s_target s) (s_nums s) solution) v2 = (path, v3)"
      using 1(3,8,9) by simp
    have dfs: "s_search_type s = search_name search
              \<and> s_search_path s
                  = fst (draw (dfs E (s_target s) (s_nums s) heuristic (s_target s)) v5)"
      if "search = Dfs"
      using 1(6) [OF that] 1(8,9) that by simp
    have bfs: "\<exists>beam_size v6.
                    random_choice E [1, 2, 3, 4, 5] v5 = (beam_size, v6)
                  \<and> s_search_type s = search_name search @ ''_'' @ str_int beam_size
                  \<and> s_search_path s
                      = fst (draw (bfs E (s_target s) (s_nums s) beam_size heuristic) v6)
                  \<and> (env_wf E \<longrightarrow>
                        beam_size = 1 + int (fst (randbelow E 5 (rng v5)))
                      \<and> beam_size \<in> {1, 2, 3, 4, 5})"
      if "search = Bfs"
    proof -
      from 1(7) [OF that] obtain beam_size v6 where
        b: "random_choice E [1, 2, 3, 4, 5] v5 = (beam_size, v6)"
        and p: "draw (bfs E target nums beam_size heuristic) v6 = (s_search_path s, v_end)"
        and l: "s_search_type s = ''bfs_'' @ str_int beam_size"
        by blast
      have "beam_size = 1 + int (fst (randbelow E 5 (rng v5))) \<and> beam_size \<in> {1, 2, 3, 4, 5}"
        if wf: "env_wf E"
        using choice_of_five [OF wf b] random_choice_in_set [OF wf _ b] by simp
      with b p l 1(8,9) that show ?thesis by auto
    qed
    have six: "s_search_type s \<in> {''dfs'', ''bfs_1'', ''bfs_2'', ''bfs_3'', ''bfs_4'', ''bfs_5''}"
      if wf: "env_wf E"
    proof (cases search)
      case Dfs
      with dfs show ?thesis by simp
    next
      case Bfs
      with bfs wf obtain beam_size where
        "s_search_type s = ''bfs_'' @ str_int beam_size" "beam_size \<in> {1, 2, 3, 4, 5}"
        by auto
      then show ?thesis by (auto simp: str_int_digits)
    qed
    from dfs have dfs': "search = Dfs \<longrightarrow>
                s_search_type s = search_name search
              \<and> s_search_path s
                  = fst (draw (dfs E (s_target s) (s_nums s) heuristic (s_target s)) v5)"
      by (rule impI)
    from bfs have bfs': "search = Bfs \<longrightarrow>
                (\<exists>beam_size v6.
                    random_choice E [1, 2, 3, 4, 5] v5 = (beam_size, v6)
                  \<and> s_search_type s = search_name search @ ''_'' @ str_int beam_size
                  \<and> s_search_path s
                      = fst (draw (bfs E (s_target s) (s_nums s) beam_size heuristic) v6)
                  \<and> (env_wf E \<longrightarrow>
                        beam_size = 1 + int (fst (randbelow E 5 (rng v5)))
                      \<and> beam_size \<in> {1, 2, 3, 4, 5}))"
      by (rule impI)
    have chain: "py_index operator_groups group_idx = Inr operators
          \<and> generate_samples_loop E operators i [] (random_seed E (42 + group_idx + 0) w)
              = Some (Inr (take i samples, v0))
          \<and> random_randint E 3 4 v0 = (start_size, v1)
          \<and> generate_samples_retry E
                \<lparr>cd_max_target = 1000, cd_start_size = start_size, cd_operators = operators\<rparr> v1
              = Some ((s_target s, s_nums s, solution), v2)
          \<and> draw (cd_convert_to_path E
                \<lparr>cd_max_target = 1000, cd_start_size = start_size, cd_operators = operators\<rparr>
                (s_target s) (s_nums s) solution) v2 = (path, v3)
          \<and> random_choice E [Sum_heuristic, Mult_heuristic] v3 = (heuristic, v4)
          \<and> random_choice E [Dfs, Bfs] v4 = (search, v5)
          \<and> (search = Dfs \<longrightarrow>
                s_search_type s = search_name search
              \<and> s_search_path s
                  = fst (draw (dfs E (s_target s) (s_nums s) heuristic (s_target s)) v5))
          \<and> (search = Bfs \<longrightarrow>
                (\<exists>beam_size v6.
                    random_choice E [1, 2, 3, 4, 5] v5 = (beam_size, v6)
                  \<and> s_search_type s = search_name search @ ''_'' @ str_int beam_size
                  \<and> s_search_path s
                      = fst (draw (bfs E (s_target s) (s_nums s) beam_size heuristic) v6)
                  \<and> (env_wf E \<longrightarrow>
                        beam_size = 1 + int (fst (randbelow E 5 (rng v5)))
                      \<and> beam_size \<in> {1, 2, 3, 4, 5})))"
      using ops loop 1(1) retry path 1(4) 1(5) dfs' bfs'
      by (intro conjI) assumption+
    show ?thesis
      unfolding r
      apply (rule conjI)
       apply (intro exI)
       apply (rule chain)
      using six apply blast
      done
  qed
qed

subsection \<open>Running the small instance\<close>

text \<open>
  The instance is evaluated call by call for group 1 (operators \<^verbatim>\<open>+\<close> and
  \<^verbatim>\<open>-\<close>, seed 43) and two samples.
\<close>

lemma toy_randint:
  "random_randint toy_env a b \<lparr>rng = g, seed_log = l\<rparr> =
     (a + int (g mod nat (b - a + 1)), \<lparr>rng = (5 * g + 7) mod 1009, seed_log = l\<rparr>)"
  by (simp add: random_randint_def draw_def toy_env_def)

lemma toy_choice_2:
  "random_choice toy_env [a, b] \<lparr>rng = g, seed_log = l\<rparr> =
     ([a, b] ! (g mod 2), \<lparr>rng = (5 * g + 7) mod 1009, seed_log = l\<rparr>)"
  by (simp add: random_choice_def draw_def toy_env_def numeral_2_eq_2)

lemma toy_choice_5:
  "random_choice toy_env [a, b, c, d, e] \<lparr>rng = g, seed_log = l\<rparr> =
     ([a, b, c, d, e] ! (g mod 5), \<lparr>rng = (5 * g + 7) mod 1009, seed_log = l\<rparr>)"
proof -
  have "length [a, b, c, d, e] = 5" by simp
  then show ?thesis
    unfolding random_choice_def draw_def toy_env_def by simp
qed

lemma toy_draw_generate:
  "draw (cd_generate toy_env cd target) \<lparr>rng = g, seed_log = l\<rparr> =
     (fst (toy_generate cd target g), \<lparr>rng = (7 * g + 5) mod 1009, seed_log = l\<rparr>)"
  by (simp add: draw_def toy_env_def toy_generate_def Let_def)

lemma toy_draw_path:
  "draw (cd_convert_to_path toy_env cd target nums solution) \<lparr>rng = g, seed_log = l\<rparr> =
     (str_int_list nums @ '' -> '' @ str_int target, \<lparr>rng = g, seed_log = l\<rparr>)"
  by (simp add: draw_def toy_env_def)

lemma toy_draw_dfs:
  "draw (dfs toy_env target nums h threshold) \<lparr>rng = g, seed_log = l\<rparr> =
     (if even target then ''dfs: Goal Reached'' else ''dfs: No solution'',
      \<lparr>rng = g, seed_log = l\<rparr>)"
  by (simp add: draw_def toy_env_def)

lemma toy_draw_bfs:
  "draw (bfs toy_env target nums beam_size h) \<lparr>rng = g, seed_log = l\<rparr> =
     (if beam_size > 2 then ''bfs: Goal Reached'' else ''bfs: No solution'',
      \<lparr>rng = g, seed_log = l\<rparr>)"
  by (simp add: draw_def toy_env_def)

lemma toy_goal_reached: "str_contains ''Goal Reached'' ''bfs: Goal Reached''"
  by (simp add: str_contains_def sublist_Cons_right)

lemma toy_no_solution: "\<not> str_contains ''Goal Reached'' ''dfs: No solution''"
  by (simp add: str_contains_def sublist_Cons_right)

lemma replicate_2: "replicate 2 x = [x, x]"
  by (simp add: numeral_2_eq_2)

lemma replicate_3: "replicate 3 x = [x, x, x]"
  by (simp add: numeral_3_eq_3)

lemma str_int_values:
  "str_int 771 = ''771''" "str_int 768 = ''768''" "str_int 598 = ''598''"
  "str_int 596 = ''596''" "str_int 1 = ''1''" "str_int 4 = ''4''"
  by (simp_all add: str_int_def digit_char_def)

text \<open>The first attempt of the first sample is rejected, the second one accepted.\<close>

lemma toy_retry_1:
  "generate_samples_retry toy_env
     \<lparr>cd_max_target = 1000, cd_start_size = 4, cd_operators = [''+'', ''-'']\<rparr>
     \<lparr>rng = 222, seed_log = l\<rparr> =
   Some ((771, [768, 1, 1, 1],
          Some (BinOp ''+'' (Num 768) (BinOp ''+'' (Num 1) (BinOp ''+'' (Num 1) (Num 1))))),
         \<lparr>rng = 455, seed_log = l\<rparr>)"
  apply (subst generate_samples_retry.simps)
  apply (simp add: toy_randint toy_draw_generate toy_generate_def Let_def)
  apply (subst generate_samples_retry.simps)
  apply (simp add: toy_randint toy_draw_generate toy_generate_def Let_def replicate_3)
  done

lemma toy_retry_2:
  "generate_samples_retry toy_env
     \<lparr>cd_max_target = 1000, cd_start_size = 3, cd_operators = [''+'', ''-'']\<rparr>
     \<lparr>rng = 588, seed_log = l\<rparr> =
   Some ((598, [596, 1, 1], Some (BinOp ''+'' (Num 596) (BinOp ''+'' (Num 1) (Num 1)))),
         \<lparr>rng = 454, seed_log = l\<rparr>)"
  apply (subst generate_samples_retry.simps)
  apply (simp add: toy_randint toy_draw_generate toy_generate_def Let_def replicate_2)
  done

lemma toy_body_1:
  "generate_samples_body toy_env [''+'', ''-''] \<lparr>rng = 43, seed_log = l\<rparr> =
     Some (Inr (toy_samples ! 0, \<lparr>rng = 318, seed_log = l\<rparr>))"
  by (simp add: generate_samples_body_def toy_randint toy_retry_1 toy_choice_2 toy_draw_path
      toy_draw_dfs search_type_label_def toy_goal_reached toy_no_solution str_int_list_def
      str_int_values toy_samples_def)

lemma toy_body_2:
  "generate_samples_body toy_env [''+'', ''-''] \<lparr>rng = 318, seed_log = l\<rparr> =
     Some (Inr (toy_samples ! 1, \<lparr>rng = 463, seed_log = l\<rparr>))"
  by (simp add: generate_samples_body_def toy_randint toy_retry_2 toy_choice_2 toy_choice_5
      toy_draw_path toy_draw_bfs search_type_label_def toy_goal_reached toy_no_solution
      str_int_list_def str_int_values toy_samples_def)

lemma toy_generate_samples:
  "generate_samples toy_env [''+'', ''-''] 1 2 0 toy_world =
     Some (Inr (toy_samples, \<lparr>rng = 463, seed_log = [43]\<rparr>))"
proof -
  have seed: "random_seed toy_env (42 + 1 + 0) toy_world = \<lparr>rng = 43, seed_log = [43]\<rparr>"
    by (simp add: random_seed_def toy_env_def toy_world_def)
  have two: "nat 2 = Suc (Suc 0)" by simp
  have all: "[toy_samples ! 0, toy_samples ! Suc 0] = toy_samples"
    by (simp add: toy_samples_def)
  show ?thesis
    unfolding generate_samples_def seed two
    by (simp add: toy_body_1 toy_body_2 all)
qed

lemma py_index_toy:
  "py_index operator_groups 1 = Inr [''+'', ''-'']" "py_index group_names 1 = Inr ''plus_minus''"
  by (simp_all add: py_index_def operator_groups_def group_names_def)

lemma toy_group_data:
  obtains train test where
    "generate_group_data toy_env 1 2 7 toy_world
       = Some (Inr ((train, test), \<lparr>rng = 463, seed_log = [43]\<rparr>))"
    "create_dataset 1 toy_samples ''train'' = Inr train"
    "create_dataset 1 toy_samples ''test'' = Inr test"
proof -
  obtain train where tr: "create_dataset 1 toy_samples ''train'' = Inr train"
    using create_dataset_total [OF py_index_toy(2)] by blast
  obtain test where te: "create_dataset 1 toy_samples ''test'' = Inr test"
    using create_dataset_total [OF py_index_toy(2)] by blast
  have "generate_group_data toy_env 1 2 7 toy_world
          = Some (Inr ((train, test), \<lparr>rng = 463, seed_log = [43]\<rparr>))"
    by (simp add: generate_group_data_def py_index_toy toy_generate_samples tr te)
  then show ?thesis using tr te by (rule that)
qed

lemma toy_solution_sound:
  "xs \<noteq> [] \<Longrightarrow>
     leaves (toy_solution xs) = xs \<and> set (ops_of (toy_solution xs)) \<subseteq> {''+''}
     \<and> eval (toy_solution xs) = Some (of_int (sum_list xs))"
  by (induction xs rule: toy_solution.induct) auto

lemma toy_engine_sound: "engine_sound toy_env (\<lambda>e. e)"
  unfolding engine_sound_def
proof (intro allI impI)
  fix cd target g nums sol g'
  assume gen: "cd_generate toy_env cd target g = ((nums, Some sol), g')"
  define k where "k = nat (cd_start_size cd) - 1"
  from gen have plus: "''+'' \<in> set (cd_operators cd)"
    and nums: "nums = (target - int k) # replicate k 1"
    and sol: "sol = toy_solution nums"
    by (auto simp: toy_env_def toy_generate_def Let_def k_def split: if_splits)
  from nums have "nums \<noteq> []" and "sum_list nums = target"
    by (simp_all add: sum_list_replicate)
  with toy_solution_sound [of nums] sol plus
  show "solves (cd_operators cd) nums target sol"
    by (auto simp: solves_def)
qed

lemma toy_env_wf: "env_wf toy_env"
  by (simp add: env_wf_def toy_env_def)

lemma toy_uniform: "\<forall>k<5. card {g \<in> {0, 1, 2, 3, 4 :: nat}. fst (randbelow toy_env 5 g) = k} = 1"
proof (intro allI impI)
  fix k :: nat assume "k < 5"
  have "{g \<in> {0, 1, 2, 3, 4 :: nat}. fst (randbelow toy_env 5 g) = k} = {k}"
    using \<open>k < 5\<close> by (auto simp: toy_env_def)
  then show "card {g \<in> {0, 1, 2, 3, 4 :: nat}. fst (randbelow toy_env 5 g) = k} = 1" by simp
qed

subsection \<open>The claims\<close>

text \<open>
  C1. Determinism. For every operator group, seed offset and sample count, the samples a
  generation pass returns do not depend on the state the random source and the seed log
  were in before the call: two runs with the same arguments return the same sequence of
  samples (or both do not return), and \<^verbatim>\<open>generate_group_data\<close> returns the same
  train and test records.
\<close>

theorem generation_deterministic:
  "returned (generate_samples E operators group_idx num_samples seed_offset w1)
     = returned (generate_samples E operators group_idx num_samples seed_offset w2)
   \<and> returned (generate_group_data E group_idx train_size test_size w1)
     = returned (generate_group_data E group_idx train_size test_size w2)"
  by (rule conjI) (rule generate_samples_returned, rule generate_group_data_returned)

theorem generation_deterministic_witness:
  "returned (generate_samples toy_env [''+'', ''-''] 1 2 0 \<lparr>rng = 900, seed_log = [7, 7]\<rparr>)
     = Some (Inr toy_samples)
   \<and> returned (generate_group_data toy_env 1 2 7 \<lparr>rng = 900, seed_log = [7, 7]\<rparr>)
     = returned (generate_group_data toy_env 1 2 7 toy_world)"
  using generation_deterministic
    [of toy_env "[''+'', ''-'']" 1 2 0 "\<lparr>rng = 900, seed_log = [7, 7]\<rparr>" toy_world 2 7]
  by (simp add: toy_generate_samples returned_def)

text \<open>
  C2. Solvability. Every sample a generation pass returns carries a solution that is not
  \<^verbatim>\<open>None\<close>, and its numbers and solution are what \<^verbatim>\<open>CountDown.generate\<close>
  returned for its target, on an object built with the pass's operators: the retry loop
  accepts nothing else. With an engine that keeps its contract (a returned solution is a
  valid expression for the returned numbers and the target), the instance therefore has
  an expression over its numbers, each used once, with operators of its group, that
  evaluates to its target.
\<close>

theorem generated_instances_solvable:
  assumes "generate_samples E operators group_idx num_samples seed_offset w
             = Some (Inr (samples, w'))"
    and "s \<in> set samples"
  shows "s_solution s \<noteq> None
       \<and> (\<exists>cd g g'. cd_operators cd = operators
              \<and> cd_generate E cd (s_target s) g = ((s_nums s, s_solution s), g'))
       \<and> (engine_sound E expr_of \<longrightarrow>
              (\<exists>sol. s_solution s = Some sol
                 \<and> solves operators (s_nums s) (s_target s) (expr_of sol)))"
proof -
  from sample_from_engine [OF assms] obtain cd g g' where
    some: "s_solution s \<noteq> None" and ops: "cd_operators cd = operators"
    and gen: "cd_generate E cd (s_target s) g = ((s_nums s, s_solution s), g')"
    by blast
  have "\<exists>sol. s_solution s = Some sol \<and> solves operators (s_nums s) (s_target s) (expr_of sol)"
    if sound: "engine_sound E expr_of"
  proof -
    from some obtain sol where sol: "s_solution s = Some sol" by blast
    with gen sound ops have "solves operators (s_nums s) (s_target s) (expr_of sol)"
      unfolding engine_sound_def by metis
    with sol show ?thesis by blast
  qed
  with some ops gen show ?thesis by blast
qed

theorem generated_instances_solvable_witness:
  "engine_sound toy_env (\<lambda>e. e)
   \<and> generate_samples toy_env [''+'', ''-''] 1 2 0 toy_world
       = Some (Inr (toy_samples, \<lparr>rng = 463, seed_log = [43]\<rparr>))
   \<and> toy_samples ! 0 \<in> set toy_samples
   \<and> solves [''+'', ''-''] [768, 1, 1, 1] 771
        (BinOp ''+'' (Num 768) (BinOp ''+'' (Num 1) (BinOp ''+'' (Num 1) (Num 1))))"
proof -
  have mem: "toy_samples ! 0 \<in> set toy_samples" by (simp add: toy_samples_def)
  from generated_instances_solvable [OF toy_generate_samples mem, of "\<lambda>e. e"] toy_engine_sound
  have "solves [''+'', ''-''] [768, 1, 1, 1] 771
          (BinOp ''+'' (Num 768) (BinOp ''+'' (Num 1) (BinOp ''+'' (Num 1) (Num 1))))"
    by (simp add: toy_samples_def)
  with toy_engine_sound toy_generate_samples mem show ?thesis by simp
qed

text \<open>
  C3. Rating. In every record of either split the rating is 1 exactly when
  \<^verbatim>\<open>Goal Reached\<close> occurs in the record's search path, and 0 exactly when it does
  not; no other value occurs.
\<close>

theorem rating_is_goal_reached:
  assumes "generate_group_data E group_idx train_size test_size w = Some (Inr ((train, test), w'))"
    and "r \<in> set train \<union> set test"
  shows "(gt_rating (ground_truth (reward_model r)) = 1
            \<longleftrightarrow> str_contains ''Goal Reached'' (gt_search_path (ground_truth (reward_model r))))
       \<and> (gt_rating (ground_truth (reward_model r)) = 0
            \<longleftrightarrow> \<not> str_contains ''Goal Reached'' (gt_search_path (ground_truth (reward_model r))))
       \<and> gt_rating (ground_truth (reward_model r)) \<in> {0, 1}"
proof -
  from assms(1) obtain operators group_name samples where
    gen: "generate_samples E operators group_idx train_size 0 w = Some (Inr (samples, w'))" and
    tr: "create_dataset group_idx samples ''train'' = Inr train" and
    te: "create_dataset group_idx samples ''test'' = Inr test"
    by (rule generate_group_data_Inr)
  from assms(2) create_dataset_member [OF tr] create_dataset_member [OF te]
  obtain s split_name idx where s: "s \<in> set samples"
    and p: "process_fn group_idx split_name s idx = Inr r"
    by blast
  from process_fn_Inr [OF p] have
    "gt_rating (ground_truth (reward_model r)) = s_rating s"
    "gt_search_path (ground_truth (reward_model r)) = s_search_path s"
    by auto
  with sample_rating [OF gen s] show ?thesis by simp
qed

theorem rating_is_goal_reached_witness:
  "\<exists>train test w' r.
     generate_group_data toy_env 1 2 7 toy_world = Some (Inr ((train, test), w'))
     \<and> r \<in> set train \<union> set test
     \<and> gt_search_path (ground_truth (reward_model r)) = ''bfs: Goal Reached''
     \<and> gt_rating (ground_truth (reward_model r)) = 1"
proof -
  obtain train test where
    H: "generate_group_data toy_env 1 2 7 toy_world
          = Some (Inr ((train, test), \<lparr>rng = 463, seed_log = [43]\<rparr>))"
    and tr: "create_dataset 1 toy_samples ''train'' = Inr train"
    by (rule toy_group_data)
  have len: "length train = 2"
    using create_dataset_rows(1) [OF tr] by (simp add: toy_samples_def)
  then have mem: "train ! 1 \<in> set train \<union> set test" by simp
  have "process_fn 1 ''train'' (toy_samples ! 1) (int 1) = Inr (train ! 1)"
    by (rule create_dataset_rows(2) [OF tr]) (simp add: toy_samples_def)
  from process_fn_Inr [OF this]
  have path: "gt_search_path (ground_truth (reward_model (train ! 1))) = ''bfs: Goal Reached''"
    by (auto simp: toy_samples_def)
  with rating_is_goal_reached [OF H mem] toy_goal_reached
  have "gt_rating (ground_truth (reward_model (train ! 1))) = 1" by simp
  with H mem path show ?thesis by blast
qed

text \<open>
  C4. The test split is the train split: the test records are the train records, in the
  same order, with the tag \<^verbatim>\<open>extra_info.split\<close> changed from \<^verbatim>\<open>train\<close> to
  \<^verbatim>\<open>test\<close> and nothing else.
\<close>

theorem test_split_is_train_split:
  assumes "generate_group_data E group_idx train_size test_size w = Some (Inr ((train, test), w'))"
  shows "test = map (\<lambda>r. r\<lparr>extra_info := (extra_info r)\<lparr>ei_split := ''test''\<rparr>\<rparr>) train
       \<and> train = map (\<lambda>r. r\<lparr>extra_info := (extra_info r)\<lparr>ei_split := ''train''\<rparr>\<rparr>) test
       \<and> list_all (\<lambda>r. ei_split (extra_info r) = ''train'') train
       \<and> list_all (\<lambda>r. ei_split (extra_info r) = ''test'') test"
proof -
  from assms obtain operators group_name samples where
    tr: "create_dataset group_idx samples ''train'' = Inr train" and
    te: "create_dataset group_idx samples ''test'' = Inr test"
    by (rule generate_group_data_Inr)
  from create_dataset_split [OF tr te] create_dataset_split [OF te tr]
    create_dataset_split_tag [OF tr] create_dataset_split_tag [OF te]
  show ?thesis by (simp add: list_all_iff)
qed

theorem test_split_is_train_split_witness:
  "\<exists>train test w'.
     generate_group_data toy_env 1 2 7 toy_world = Some (Inr ((train, test), w'))
     \<and> length train = 2
     \<and> test = map (\<lambda>r. r\<lparr>extra_info := (extra_info r)\<lparr>ei_split := ''test''\<rparr>\<rparr>) train
     \<and> map (\<lambda>r. ei_split (extra_info r)) train = [''train'', ''train'']
     \<and> map (\<lambda>r. ei_split (extra_info r)) test = [''test'', ''test'']"
proof -
  obtain train test where
    H: "generate_group_data toy_env 1 2 7 toy_world
          = Some (Inr ((train, test), \<lparr>rng = 463, seed_log = [43]\<rparr>))"
    and tr: "create_dataset 1 toy_samples ''train'' = Inr train"
    by (rule toy_group_data)
  have "length train = 2"
    using create_dataset_rows(1) [OF tr] by (simp add: toy_samples_def)
  then obtain a b where ab: "train = [a, b]"
    by (cases train; cases "tl train") auto
  with test_split_is_train_split [OF H] H show ?thesis by auto
qed

text \<open>
  C5. Seeding. A generation pass first calls \<^verbatim>\<open>random.seed\<close> with
  \<open>42 + group_idx + seed_offset\<close> and then runs its loop: the loop starts from the world
  in which the state of the random source is the one this seed determines, and the first
  instance is drawn from that state. A pass that returns has seeded exactly once: the
  seed log grew by this one entry, and before and after every iteration it holds exactly
  this entry more, so no instance re-seeded. \<^verbatim>\<open>generate_group_data\<close> runs one pass,
  with offset 0, for both splits of the group.
\<close>

theorem seeded_once_per_pass:
  "generate_samples E operators group_idx num_samples seed_offset w
     = generate_samples_loop E operators (nat num_samples) []
         (random_seed E (42 + group_idx + seed_offset) w)
   \<and> random_seed E (42 + group_idx + seed_offset) w
     = \<lparr>rng = seed_state E (42 + group_idx + seed_offset),
        seed_log = seed_log w @ [42 + group_idx + seed_offset]\<rparr>
   \<and> (generate_samples E operators group_idx num_samples seed_offset w
        = Some (Inr (samples, w'))
      \<longrightarrow> seed_log w' = seed_log w @ [42 + group_idx + seed_offset]
        \<and> (samples \<noteq> [] \<longrightarrow>
              (\<exists>v'. generate_samples_body E operators
                       \<lparr>rng = seed_state E (42 + group_idx + seed_offset),
                        seed_log = seed_log w @ [42 + group_idx + seed_offset]\<rparr>
                     = Some (Inr (samples ! 0, v'))))
        \<and> (\<forall>i<length samples. \<exists>v v'.
              generate_samples_loop E operators i []
                \<lparr>rng = seed_state E (42 + group_idx + seed_offset),
                 seed_log = seed_log w @ [42 + group_idx + seed_offset]\<rparr>
                = Some (Inr (take i samples, v))
            \<and> generate_samples_body E operators v = Some (Inr (samples ! i, v'))
            \<and> seed_log v = seed_log w @ [42 + group_idx + seed_offset]
            \<and> seed_log v' = seed_log w @ [42 + group_idx + seed_offset]))
   \<and> (generate_group_data E group_idx train_size test_size w = Some (Inr (splits, w''))
      \<longrightarrow> seed_log w'' = seed_log w @ [42 + group_idx])"
proof (intro conjI impI allI)
  show "generate_samples E operators group_idx num_samples seed_offset w
     = generate_samples_loop E operators (nat num_samples) []
         (random_seed E (42 + group_idx + seed_offset) w)"
    by (simp add: generate_samples_def)
  show seed: "random_seed E (42 + group_idx + seed_offset) w
     = \<lparr>rng = seed_state E (42 + group_idx + seed_offset),
        seed_log = seed_log w @ [42 + group_idx + seed_offset]\<rparr>"
    by (simp add: random_seed_def)
  show "seed_log w'' = seed_log w @ [42 + group_idx]"
    if "generate_group_data E group_idx train_size test_size w = Some (Inr (splits, w''))"
    using that by (rule generate_group_data_seed_log)
  assume gen: "generate_samples E operators group_idx num_samples seed_offset w
        = Some (Inr (samples, w'))"
  show "seed_log w' = seed_log w @ [42 + group_idx + seed_offset]"
    using gen by (rule generate_samples_Inr(2))
  show "\<exists>v'. generate_samples_body E operators
                       \<lparr>rng = seed_state E (42 + group_idx + seed_offset),
                        seed_log = seed_log w @ [42 + group_idx + seed_offset]\<rparr>
                     = Some (Inr (samples ! 0, v'))"
    if "samples \<noteq> []"
  proof -
    from that have "0 < length samples" by simp
    from sample_iteration [OF gen this] show ?thesis
      unfolding seed by auto
  qed
  fix i assume "i < length samples"
  from sample_iteration [OF gen this]
  show "\<exists>v v'.
              generate_samples_loop E operators i []
                \<lparr>rng = seed_state E (42 + group_idx + seed_offset),
                 seed_log = seed_log w @ [42 + group_idx + seed_offset]\<rparr>
                = Some (Inr (take i samples, v))
            \<and> generate_samples_body E operators v = Some (Inr (samples ! i, v'))
            \<and> seed_log v = seed_log w @ [42 + group_idx + seed_offset]
            \<and> seed_log v' = seed_log w @ [42 + group_idx + seed_offset]"
    unfolding seed .
qed

theorem seeded_once_per_pass_witness:
  "generate_samples toy_env [''+'', ''-''] 1 2 0 toy_world
     = Some (Inr (toy_samples, \<lparr>rng = 463, seed_log = [43]\<rparr>))
   \<and> (\<exists>splits. generate_group_data toy_env 1 2 7 toy_world
         = Some (Inr (splits, \<lparr>rng = 463, seed_log = [43]\<rparr>)))
   \<and> random_seed toy_env (42 + 1 + 0) toy_world = \<lparr>rng = 43, seed_log = [43]\<rparr>
   \<and> seed_log toy_world @ [42 + 1 + 0] = [43]
   \<and> (\<exists>v'. generate_samples_body toy_env [''+'', ''-''] \<lparr>rng = 43, seed_log = [43]\<rparr>
              = Some (Inr (toy_samples ! 0, v')))
   \<and> (\<exists>v v'. generate_samples_loop toy_env [''+'', ''-''] 1 [] \<lparr>rng = 43, seed_log = [43]\<rparr>
                 = Some (Inr (take 1 toy_samples, v))
         \<and> generate_samples_body toy_env [''+'', ''-''] v = Some (Inr (toy_samples ! 1, v'))
         \<and> seed_log v = [43] \<and> seed_log v' = [43])"
proof -
  obtain train test where
    H: "generate_group_data toy_env 1 2 7 toy_world
          = Some (Inr ((train, test), \<lparr>rng = 463, seed_log = [43]\<rparr>))"
    by (rule toy_group_data)
  note inst = seeded_once_per_pass
    [of toy_env "[''+'', ''-'']" 1 2 0 toy_world toy_samples "\<lparr>rng = 463, seed_log = [43]\<rparr>"
      2 7 "(train, test)" "\<lparr>rng = 463, seed_log = [43]\<rparr>"]
  have one: "(1::nat) < length toy_samples" and ne: "toy_samples \<noteq> []"
    by (simp_all add: toy_samples_def)
  have st: "seed_state toy_env 43 = 43" "seed_log toy_world = []"
    by (simp_all add: toy_env_def toy_world_def)
  from inst have seed: "random_seed toy_env (42 + 1 + 0) toy_world = \<lparr>rng = 43, seed_log = [43]\<rparr>"
    by (simp add: st)
  from inst toy_generate_samples ne
  have first: "\<exists>v'. generate_samples_body toy_env [''+'', ''-''] \<lparr>rng = 43, seed_log = [43]\<rparr>
              = Some (Inr (toy_samples ! 0, v'))"
    by (simp add: st)
  from inst toy_generate_samples
  have "\<forall>i<length toy_samples. \<exists>v v'.
           generate_samples_loop toy_env [''+'', ''-''] i [] \<lparr>rng = 43, seed_log = [43]\<rparr>
             = Some (Inr (take i toy_samples, v))
         \<and> generate_samples_body toy_env [''+'', ''-''] v = Some (Inr (toy_samples ! i, v'))
         \<and> seed_log v = [43] \<and> seed_log v' = [43]"
    by (simp add: st)
  with one have iter: "\<exists>v v'. generate_samples_loop toy_env [''+'', ''-''] 1 []
                   \<lparr>rng = 43, seed_log = [43]\<rparr>
                 = Some (Inr (take 1 toy_samples, v))
         \<and> generate_samples_body toy_env [''+'', ''-''] v = Some (Inr (toy_samples ! 1, v'))
         \<and> seed_log v = [43] \<and> seed_log v' = [43]"
    by blast
  from toy_generate_samples H seed first iter st show ?thesis by auto
qed

text \<open>
  C6. Index contiguity. In each split the field \<^verbatim>\<open>extra_info.index\<close> of the records,
  read in record order, is \<open>0, 1, ..., count - 1\<close>.
\<close>

theorem index_contiguous:
  assumes "generate_group_data E group_idx train_size test_size w = Some (Inr ((train, test), w'))"
  shows "map (\<lambda>r. ei_index (extra_info r)) train = map int [0..<length train]
       \<and> map (\<lambda>r. ei_index (extra_info r)) test = map int [0..<length test]"
proof -
  from assms obtain operators group_name samples where
    tr: "create_dataset group_idx samples ''train'' = Inr train" and
    te: "create_dataset group_idx samples ''test'' = Inr test"
    by (rule generate_group_data_Inr)
  from create_dataset_index [OF tr] create_dataset_index [OF te] show ?thesis by simp
qed

theorem index_contiguous_witness:
  "\<exists>train test w'.
     generate_group_data toy_env 1 2 7 toy_world = Some (Inr ((train, test), w'))
     \<and> map (\<lambda>r. ei_index (extra_info r)) train = [0, 1]
     \<and> map (\<lambda>r. ei_index (extra_info r)) test = [0, 1]"
proof -
  obtain train test where
    H: "generate_group_data toy_env 1 2 7 toy_world
          = Some (Inr ((train, test), \<lparr>rng = 463, seed_log = [43]\<rparr>))"
    and tr: "create_dataset 1 toy_samples ''train'' = Inr train"
    and te: "create_dataset 1 toy_samples ''test'' = Inr test"
    by (rule toy_group_data)
  have len: "length train = 2" "length test = 2"
    using create_dataset_rows(1) [OF tr] create_dataset_rows(1) [OF te]
    by (simp_all add: toy_samples_def)
  have "[0..<2] = [0, Suc 0]" by (simp add: upt_rec)
  with index_contiguous [OF H] len H show ?thesis by simp
qed

text \<open>
  C7. Whatever group generated the instance, the prompt of every record is the base
  template with the record's numbers and target and with the full operator list
  \<^verbatim>\<open>+, -, *, /\<close>.
\<close>

theorem prompt_lists_all_operators:
  assumes "generate_group_data E group_idx train_size test_size w = Some (Inr ((train, test), w'))"
    and "r \<in> set train \<union> set test"
  shows "prompt r =
     [\<lparr>role = ''user'',
       content =
         ''A conversation between User and Assistant. The user asks a question, and the Assistant solves it. The assistant first thinks about the reasoning process in the mind and then provides the user with the answer.''
         @ nl @ ''User: Using the numbers ''
         @ str_int_list (gt_numbers (ground_truth (reward_model r)))
         @ '', create an equation that equals ''
         @ str_int (gt_target (ground_truth (reward_model r)))
         @ ''. You can use basic arithmetic operations (+, -, *, /) and each number can only be used once. Show your work in <think> </think> tags. And return the final answer in <answer> </answer> tags, for example <answer> (1 + 2) / 3 </answer>.''
         @ nl @ ''Assistant: Let me solve this step by step.'' @ nl @ ''<think>''\<rparr>]"
proof -
  from assms(1) obtain operators group_name samples where
    tr: "create_dataset group_idx samples ''train'' = Inr train" and
    te: "create_dataset group_idx samples ''test'' = Inr test"
    by (rule generate_group_data_Inr)
  from assms(2) create_dataset_member [OF tr] create_dataset_member [OF te]
  obtain s split_name idx where p: "process_fn group_idx split_name s idx = Inr r"
    by blast
  from process_fn_Inr [OF p] obtain question where
    q: "make_prefix s [''+'', ''-'', ''*'', ''/''] ''base'' = Inr question"
    and r: "prompt r = [\<lparr>role = ''user'', content = question\<rparr>]"
      "gt_numbers (ground_truth (reward_model r)) = s_nums s"
      "gt_target (ground_truth (reward_model r)) = s_target s"
    by auto
  from q have "question =
         ''A conversation between User and Assistant. The user asks a question, and the Assistant solves it. The assistant first thinks about the reasoning process in the mind and then provides the user with the answer.''
         @ nl @ ''User: Using the numbers '' @ str_int_list (s_nums s)
         @ '', create an equation that equals '' @ str_int (s_target s)
         @ ''. You can use basic arithmetic operations (+, -, *, /) and each number can only be used once. Show your work in <think> </think> tags. And return the final answer in <answer> </answer> tags, for example <answer> (1 + 2) / 3 </answer>.''
         @ nl @ ''Assistant: Let me solve this step by step.'' @ nl @ ''<think>''"
    unfolding make_prefix_base by simp
  with r show ?thesis by simp
qed

theorem prompt_lists_all_operators_witness:
  "\<exists>train test w' r.
     generate_group_data toy_env 1 2 7 toy_world = Some (Inr ((train, test), w'))
     \<and> r \<in> set train \<union> set test
     \<and> ei_operator_group (extra_info r) = ''plus_minus''
     \<and> prompt r =
     [\<lparr>role = ''user'',
       content =
         ''A conversation between User and Assistant. The user asks a question, and the Assistant solves it. The assistant first thinks about the reasoning process in the mind and then provides the user with the answer.''
         @ nl @ ''User: Using the numbers [768, 1, 1, 1], create an equation that equals 771. You can use basic arithmetic operations (+, -, *, /) and each number can only be used once. Show your work in <think> </think> tags. And return the final answer in <answer> </answer> tags, for example <answer> (1 + 2) / 3 </answer>.''
         @ nl @ ''Assistant: Let me solve this step by step.'' @ nl @ ''<think>''\<rparr>]"
proof -
  obtain train test where
    H: "generate_group_data toy_env 1 2 7 toy_world
          = Some (Inr ((train, test), \<lparr>rng = 463, seed_log = [43]\<rparr>))"
    and tr: "create_dataset 1 toy_samples ''train'' = Inr train"
    by (rule toy_group_data)
  have len: "length train = 2"
    using create_dataset_rows(1) [OF tr] by (simp add: toy_samples_def)
  then have mem: "train ! 0 \<in> set train \<union> set test" by simp
  have "process_fn 1 ''train'' (toy_samples ! 0) (int 0) = Inr (train ! 0)"
    by (rule create_dataset_rows(2) [OF tr]) (simp add: toy_samples_def)
  from process_fn_Inr [OF this]
  have fields: "gt_numbers (ground_truth (reward_model (train ! 0))) = [768, 1, 1, 1]"
    "gt_target (ground_truth (reward_model (train ! 0))) = 771"
    "ei_operator_group (extra_info (train ! 0)) = ''plus_minus''"
    by (auto simp: toy_samples_def py_index_toy)
  have "prompt (train ! 0) =
     [\<lparr>role = ''user'',
       content =
         ''A conversation between User and Assistant. The user asks a question, and the Assistant solves it. The assistant first thinks about the reasoning process in the mind and then provides the user with the answer.''
         @ nl @ ''User: Using the numbers [768, 1, 1, 1], create an equation that equals 771. You can use basic arithmetic operations (+, -, *, /) and each number can only be used once. Show your work in <think> </think> tags. And return the final answer in <answer> </answer> tags, for example <answer> (1 + 2) / 3 </answer>.''
         @ nl @ ''Assistant: Let me solve this step by step.'' @ nl @ ''<think>''\<rparr>]"
    unfolding prompt_lists_all_operators [OF H mem] fields
    by (simp add: str_int_list_def str_int_values)
  with H mem fields(3) show ?thesis by blast
qed

text \<open>
  C8. The field \<^verbatim>\<open>search_type\<close> of the record at position \<open>i\<close> of either split is
  a function of the draws of iteration \<open>i\<close> of the pass. In the world that the loop
  reaches from the seeded world after \<open>i\<close> iterations, the iteration draws the size, the
  instance (the record's target and numbers), the heuristic and then the strategy. When
  \<^verbatim>\<open>random.choice([dfs, bfs])\<close> returned \<^verbatim>\<open>dfs\<close>, the label is the strategy's name
  and the record's search path is the result of \<^verbatim>\<open>dfs\<close>. When it returned
  \<^verbatim>\<open>bfs\<close>, the label is the name, an underscore and the value of
  \<^verbatim>\<open>random.choice([1, 2, 3, 4, 5])\<close>, and the search path is the result of
  \<^verbatim>\<open>bfs\<close> with that width. With a random source that keeps the range contract
  the width is one more than the value of \<^verbatim>\<open>_randbelow(5)\<close>, hence one of 1 to
  5, and the label one of six strings. Uniformity: over any population of states of the
  source on which \<^verbatim>\<open>_randbelow(5)\<close> takes each of its five values equally often,
  the width takes each of 1 to 5 equally often. (That the source itself is uniform is a
  property of the random module.)
\<close>

theorem search_type_names_strategy:
  assumes "generate_group_data E group_idx train_size test_size w = Some (Inr ((train, test), w'))"
    and "i < length train" and "r = train ! i \<or> r = test ! i"
  shows "(\<exists>operators prefix v0 start_size v1 solution v2 path v3 heuristic v4 search v5.
            py_index operator_groups group_idx = Inr operators
          \<and> generate_samples_loop E operators i [] (random_seed E (42 + group_idx + 0) w)
              = Some (Inr (prefix, v0))
          \<and> random_randint E 3 4 v0 = (start_size, v1)
          \<and> generate_samples_retry E
                \<lparr>cd_max_target = 1000, cd_start_size = start_size, cd_operators = operators\<rparr> v1
              = Some ((gt_target (ground_truth (reward_model r)),
                       gt_numbers (ground_truth (reward_model r)), solution), v2)
          \<and> draw (cd_convert_to_path E
                \<lparr>cd_max_target = 1000, cd_start_size = start_size, cd_operators = operators\<rparr>
                (gt_target (ground_truth (reward_model r)))
                (gt_numbers (ground_truth (reward_model r))) solution) v2 = (path, v3)
          \<and> random_choice E [Sum_heuristic, Mult_heuristic] v3 = (heuristic, v4)
          \<and> random_choice E [Dfs, Bfs] v4 = (search, v5)
          \<and> (search = Dfs \<longrightarrow>
                ei_search_type (extra_info r) = search_name search
              \<and> gt_search_path (ground_truth (reward_model r))
                  = fst (draw (dfs E (gt_target (ground_truth (reward_model r)))
                                (gt_numbers (ground_truth (reward_model r))) heuristic
                                (gt_target (ground_truth (reward_model r)))) v5))
          \<and> (search = Bfs \<longrightarrow>
                (\<exists>beam_size v6.
                    random_choice E [1, 2, 3, 4, 5] v5 = (beam_size, v6)
                  \<and> ei_search_type (extra_info r)
                      = search_name search @ ''_'' @ str_int beam_size
                  \<and> gt_search_path (ground_truth (reward_model r))
                      = fst (draw (bfs E (gt_target (ground_truth (reward_model r)))
                                    (gt_numbers (ground_truth (reward_model r))) beam_size
                                    heuristic) v6)
                  \<and> (env_wf E \<longrightarrow>
                        beam_size = 1 + int (fst (randbelow E 5 (rng v5)))
                      \<and> beam_size \<in> {1, 2, 3, 4, 5}))))
       \<and> (env_wf E \<longrightarrow>
             ei_search_type (extra_info r)
               \<in> {''dfs'', ''bfs_1'', ''bfs_2'', ''bfs_3'', ''bfs_4'', ''bfs_5''})
       \<and> (env_wf E \<and> (\<forall>k<5. card {g \<in> S. fst (randbelow E 5 g) = k} = c) \<longrightarrow>
             (\<forall>b\<in>{1, 2, 3, 4, 5 :: int}.
                card {g \<in> S. fst (random_choice E [1, 2, 3, 4, 5]
                                     \<lparr>rng = g, seed_log = l\<rparr>) = b} = c))"
proof (intro conjI)
  from record_search_type [OF assms]
  show "\<exists>operators prefix v0 start_size v1 solution v2 path v3 heuristic v4 search v5.
            py_index operator_groups group_idx = Inr operators
          \<and> generate_samples_loop E operators i [] (random_seed E (42 + group_idx + 0) w)
              = Some (Inr (prefix, v0))
          \<and> random_randint E 3 4 v0 = (start_size, v1)
          \<and> generate_samples_retry E
                \<lparr>cd_max_target = 1000, cd_start_size = start_size, cd_operators = operators\<rparr> v1
              = Some ((gt_target (ground_truth (reward_model r)),
                       gt_numbers (ground_truth (reward_model r)), solution), v2)
          \<and> draw (cd_convert_to_path E
                \<lparr>cd_max_target = 1000, cd_start_size = start_size, cd_operators = operators\<rparr>
                (gt_target (ground_truth (reward_model r)))
                (gt_numbers (ground_truth (reward_model r))) solution) v2 = (path, v3)
          \<and> random_choice E [Sum_heuristic, Mult_heuristic] v3 = (heuristic, v4)
          \<and> random_choice E [Dfs, Bfs] v4 = (search, v5)
          \<and> (search = Dfs \<longrightarrow>
                ei_search_type (extra_info r) = search_name search
              \<and> gt_search_path (ground_truth (reward_model r))
                  = fst (draw (dfs E (gt_target (ground_truth (reward_model r)))
                                (gt_numbers (ground_truth (reward_model r))) heuristic
                                (gt_target (ground_truth (reward_model r)))) v5))
          \<and> (search = Bfs \<longrightarrow>
                (\<exists>beam_size v6.
                    random_choice E [1, 2, 3, 4, 5] v5 = (beam_size, v6)
                  \<and> ei_search_type (extra_info r)
                      = search_name search @ ''_'' @ str_int beam_size
                  \<and> gt_search_path (ground_truth (reward_model r))
                      = fst (draw (bfs E (gt_target (ground_truth (reward_model r)))
                                    (gt_numbers (ground_truth (reward_model r))) beam_size
                                    heuristic) v6)
                  \<and> (env_wf E \<longrightarrow>
                        beam_size = 1 + int (fst (randbelow E 5 (rng v5)))
                      \<and> beam_size \<in> {1, 2, 3, 4, 5})))"
    by (rule conjunct1)
  from record_search_type [OF assms]
  show "env_wf E \<longrightarrow>
             ei_search_type (extra_info r)
               \<in> {''dfs'', ''bfs_1'', ''bfs_2'', ''bfs_3'', ''bfs_4'', ''bfs_5''}"
    by (rule conjunct2)
  show "env_wf E \<and> (\<forall>k<5. card {g \<in> S. fst (randbelow E 5 g) = k} = c) \<longrightarrow>
             (\<forall>b\<in>{1, 2, 3, 4, 5 :: int}.
                card {g \<in> S. fst (random_choice E [1, 2, 3, 4, 5]
                                     \<lparr>rng = g, seed_log = l\<rparr>) = b} = c)"
  proof (intro impI ballI)
    fix b :: int
    assume a: "env_wf E \<and> (\<forall>k<5. card {g \<in> S. fst (randbelow E 5 g) = k} = c)"
      and b: "b \<in> {1, 2, 3, 4, 5}"
    from a have wf: "env_wf E" by (rule conjunct1)
    from a have uni: "\<forall>k<5. card {g \<in> S. fst (randbelow E 5 g) = k} = c" by (rule conjunct2)
    show "card {g \<in> S. fst (random_choice E [1, 2, 3, 4, 5]
                                     \<lparr>rng = g, seed_log = l\<rparr>) = b} = c"
      by (rule beam_width_uniform [OF wf uni b])
  qed
qed

theorem search_type_names_strategy_witness:
  "env_wf toy_env
   \<and> (\<exists>train test w'.
        generate_group_data toy_env 1 2 7 toy_world = Some (Inr ((train, test), w'))
        \<and> 1 < length train
        \<and> gt_search_path (ground_truth (reward_model (train ! 1))) = ''bfs: Goal Reached''
        \<and> ei_search_type (extra_info (train ! 1)) = ''bfs_4''
        \<and> ei_search_type (extra_info (train ! 1))
             \<in> {''dfs'', ''bfs_1'', ''bfs_2'', ''bfs_3'', ''bfs_4'', ''bfs_5''})
   \<and> card {g \<in> {0, 1, 2, 3, 4 :: nat}.
             fst (random_choice toy_env [1, 2, 3, 4, 5 :: int] \<lparr>rng = g, seed_log = []\<rparr>) = 4}
       = 1"
proof -
  obtain train test where
    H: "generate_group_data toy_env 1 2 7 toy_world
          = Some (Inr ((train, test), \<lparr>rng = 463, seed_log = [43]\<rparr>))"
    and tr: "create_dataset 1 toy_samples ''train'' = Inr train"
    by (rule toy_group_data)
  have len: "1 < length train"
    using create_dataset_rows(1) [OF tr] by (simp add: toy_samples_def)
  have "process_fn 1 ''train'' (toy_samples ! 1) (int 1) = Inr (train ! 1)"
    by (rule create_dataset_rows(2) [OF tr]) (simp add: toy_samples_def)
  from process_fn_Inr [OF this]
  have label: "ei_search_type (extra_info (train ! 1)) = ''bfs_4''"
    and path: "gt_search_path (ground_truth (reward_model (train ! 1))) = ''bfs: Goal Reached''"
    by (auto simp: toy_samples_def)
  note inst = search_type_names_strategy
    [OF H len disjI1 [OF refl], of "{0, 1, 2, 3, 4}" 1 "[]"]
  from inst toy_env_wf
  have six: "ei_search_type (extra_info (train ! 1))
          \<in> {''dfs'', ''bfs_1'', ''bfs_2'', ''bfs_3'', ''bfs_4'', ''bfs_5''}"
    by blast
  from inst toy_env_wf toy_uniform
  have "\<forall>b\<in>{1, 2, 3, 4, 5}.
          card {g \<in> {0, 1, 2, 3, 4 :: nat}.
                 fst (random_choice toy_env [1, 2, 3, 4, 5 :: int] \<lparr>rng = g, seed_log = []\<rparr>) = b}
            = 1"
    by blast
  then have "card {g \<in> {0, 1, 2, 3, 4 :: nat}.
             fst (random_choice toy_env [1, 2, 3, 4, 5 :: int] \<lparr>rng = g, seed_log = []\<rparr>) = 4}
       = 1"
    by simp
  with toy_env_wf H len label path six show ?thesis by blast
qed

text \<open>
  C9. \<^verbatim>\<open>generate_group_data\<close> ignores \<^verbatim>\<open>test_size\<close>: the result is the same
  for every value of it, and the test split has as many records as the train split,
  namely \<^verbatim>\<open>train_size\<close> (none when \<^verbatim>\<open>train_size\<close> is negative).
\<close>

theorem test_size_ignored:
  "generate_group_data E group_idx train_size test_size w
     = generate_group_data E group_idx train_size test_size' w
   \<and> (generate_group_data E group_idx train_size test_size w = Some (Inr ((train, test), w'))
        \<longrightarrow> length train = nat train_size \<and> length test = nat train_size)"
proof (intro conjI impI)
  show "generate_group_data E group_idx train_size test_size w
          = generate_group_data E group_idx train_size test_size' w"
    by (simp add: generate_group_data_def)
next
  assume H: "generate_group_data E group_idx train_size test_size w = Some (Inr ((train, test), w'))"
  then obtain operators group_name samples where
    gen: "generate_samples E operators group_idx train_size 0 w = Some (Inr (samples, w'))" and
    tr: "create_dataset group_idx samples ''train'' = Inr train" and
    te: "create_dataset group_idx samples ''test'' = Inr test"
    by (rule generate_group_data_Inr)
  from generate_samples_Inr(1) [OF gen] create_dataset_rows(1) [OF tr]
  show "length train = nat train_size" by simp
  from generate_samples_Inr(1) [OF gen] create_dataset_rows(1) [OF te]
  show "length test = nat train_size" by simp
qed

theorem test_size_ignored_witness:
  "\<exists>train test w'.
     generate_group_data toy_env 1 2 7 toy_world = Some (Inr ((train, test), w'))
     \<and> generate_group_data toy_env 1 2 7 toy_world = generate_group_data toy_env 1 2 5000 toy_world
     \<and> length train = 2 \<and> length test = 2"
proof -
  obtain train test where
    H: "generate_group_data toy_env 1 2 7 toy_world
          = Some (Inr ((train, test), \<lparr>rng = 463, seed_log = [43]\<rparr>))"
    by (rule toy_group_data)
  from test_size_ignored
    [of toy_env 1 2 7 toy_world 5000 train test "\<lparr>rng = 463, seed_log = [43]\<rparr>"] H
  have "generate_group_data toy_env 1 2 7 toy_world = generate_group_data toy_env 1 2 5000 toy_world"
    "length train = 2" "length test = 2"
    by simp_all
  with H show ?thesis by blast
qed

text \<open>
  C10. For every template type other than \<^verbatim>\<open>base\<close> and \<^verbatim>\<open>qwen-instruct\<close>,
  \<^verbatim>\<open>make_prefix\<close> returns no prompt: the result variable was never assigned and the
  call fails with an unbound-local error.
\<close>

theorem make_prefix_other_template_fails:
  "template_type \<noteq> ''base'' \<Longrightarrow> template_type \<noteq> ''qwen-instruct'' \<Longrightarrow>
     make_prefix dp operators template_type = Inl UnboundLocalError"
  by (simp add: make_prefix_def)

theorem make_prefix_other_template_fails_witness:
  "''chat'' \<noteq> ''base'' \<and> ''chat'' \<noteq> ''qwen-instruct''
   \<and> make_prefix (toy_samples ! 0) [''+''] ''chat'' = Inl UnboundLocalError"
  using make_prefix_other_template_fails [of "''chat''" "toy_samples ! 0" "[''+'']"]
  by simp

end
